theory Spec2Isabelle
  imports Complex_Main "HOL-Library.Char_ord" "HOL-Library.List_Lexorder" "HOL-Library.Multiset"
begin

section \<open>The table: cells, rows, frames\<close>

text \<open>
  \<open>BaseDataHandler\<close> (src/base_data_handler.py) keeps one pandas DataFrame in the
  private attribute \<open>__df\<close> and the path it came from in \<open>file_path\<close>. Every method is one
  or two calls into pandas, so the embedding has two layers: the DataFrame methods the class
  calls (this section and the next ones), written after the documented behaviour of pandas,
  and the methods of the class itself, written line by line from the source.

  A cell is a number, a text or the missing marker (NaN / None). A column that holds
  numbers and no text has a numeric dtype (int64 or float64) or, when the numbers are kept
  as Python objects, dtype object: its numbers are \<open>Num x\<close> in the first case and \<open>Obj x\<close>
  in the second, which \<open>mean(numeric_only=True)\<close> tells apart. A column with a text in it
  has dtype object whatever else it holds. Boolean and datetime cells are left out. Numbers are written as reals. Comparing and selecting
  float64 numbers is exact, so the real numbers say what the code does there. The code
  rounds where it adds and divides (the mean) and where it compares an int64 beyond
  \<open>2^53\<close> with a float bound; the properties of \<open>clip\<close> and of the mean are therefore
  stated for numbers on which the code computes exactly (\<open>float64\<close>, \<open>exact_mean\<close>
  below). A frame is row-major: the column labels, and the rows in order, each row carrying
  its index label and one cell per column. The row index is unnamed, as it is after
  \<open>read_csv\<close>, after \<open>reset_index\<close> and in a frame built from plain data.
\<close>

datatype cell = Num real | Obj real | Str string | Missing

type_synonym row = "cell \<times> cell list"

record dataframe =
  columns :: "string list"
  rows :: "row list"

text \<open>The invariants of a frame: unique column labels, one cell per column in every row.\<close>

definition wf_df :: "dataframe \<Rightarrow> bool" where
  "wf_df d = (distinct (columns d) \<and> list_all (\<lambda>r. length (snd r) = length (columns d)) (rows d))"

text \<open>
  Python exceptions that derive from \<open>Exception\<close>, which is what the \<open>except Exception\<close>
  clauses of the class catch; the string is the message. pandas and the file system raise
  only these. A function passed in by the caller can raise anything that derives from
  \<open>BaseException\<close>: an \<open>Exception\<close>, or one of \<open>SystemExit\<close>, \<open>KeyboardInterrupt\<close> and
  \<open>GeneratorExit\<close>, which \<open>except Exception\<close> does not catch.
\<close>

datatype exn =
    AttributeError string
  | KeyError string
  | TypeError string
  | ValueError string
  | OSError string
  | OtherError string

datatype base_exn = Exc exn | SystemExit | KeyboardInterrupt | GeneratorExit

text \<open>A computation that may raise: \<open>Inl e\<close> is the exception \<open>e\<close> leaving the computation.\<close>

definition bindE :: "'e + 'a \<Rightarrow> ('a \<Rightarrow> 'e + 'b) \<Rightarrow> 'e + 'b" where
  "bindE m f = (case m of Inl e \<Rightarrow> Inl e | Inr x \<Rightarrow> f x)"

definition liftE :: "exn + 'a \<Rightarrow> base_exn + 'a" where
  "liftE m = (case m of Inl e \<Rightarrow> Inl (Exc e) | Inr x \<Rightarrow> Inr x)"

text \<open>\<open>cols: str | list[str]\<close> and \<open>ascending: bool | list[bool]\<close>.\<close>

datatype names = Name string | Names "string list"

datatype flags = Flag bool | Flags "bool list"

fun names_list :: "names \<Rightarrow> string list" where
  "names_list (Name c) = [c]"
| "names_list (Names cs) = cs"

text \<open>The cell of a row under a column label (the first column of that label).\<close>

definition row_get :: "string list \<Rightarrow> cell list \<Rightarrow> string \<Rightarrow> cell" where
  "row_get cs vs c = (case map_of (zip cs vs) c of Some v \<Rightarrow> v | None \<Rightarrow> Missing)"

text \<open>\<open>RangeIndex(n)\<close>: the labels 0 .. n-1.\<close>

definition range_index :: "nat \<Rightarrow> cell list" where
  "range_index n = map (\<lambda>i. Num (real i)) [0..<n]"

section \<open>Strings: \<open>str.replace\<close>\<close>

text \<open>
  Python's \<open>s.replace(old, new)\<close> without a count replaces every non-overlapping
  occurrence of \<open>old\<close>, scanning from the left. With an empty \<open>old\<close> it puts \<open>new\<close> before
  every character and at the end.
\<close>

function str_replace :: "string \<Rightarrow> string \<Rightarrow> string \<Rightarrow> string" where
  "str_replace old new [] = (if old = [] then new else [])"
| "str_replace old new (c # cs) =
     (if old = [] then new @ c # str_replace old new cs
      else if take (length old) (c # cs) = old
           then new @ str_replace old new (drop (length old) (c # cs))
           else c # str_replace old new cs)"
  by pat_completeness auto
termination
  by (relation "measure (\<lambda>(old, new, s). length s)") auto

text \<open>
  What the docstring of \<open>try_save\<close> describes: only the first occurrence is replaced
  (Python's \<open>s.replace(old, new, 1)\<close>). It is used to compare the code with its documentation.
\<close>

fun replace_first :: "string \<Rightarrow> string \<Rightarrow> string \<Rightarrow> string" where
  "replace_first old new [] = (if old = [] then new else [])"
| "replace_first old new (c # cs) =
     (if take (length old) (c # cs) = old then new @ drop (length old) (c # cs)
      else c # replace_first old new cs)"

section \<open>Files\<close>

text \<open>
  A written CSV file is kept structured: the header fields and the records, each a list of
  fields. \<open>DataFrame.to_csv(path)\<close> is called with its defaults, so \<open>index=True\<close>: the index
  labels are written as the first field of every record, under an empty header field (the
  index has no name).
\<close>

record csv_file =
  header :: "string list"
  records :: "cell list list"

definition to_csv_content :: "dataframe \<Rightarrow> csv_file" where
  "to_csv_content d = \<lparr>header = [] # columns d, records = map (\<lambda>r. fst r # snd r) (rows d)\<rparr>"

text \<open>
  The world outside the process. Parsing is pandas' business: \<open>read_result p\<close> is what
  \<open>pd.read_csv(p)\<close> does for the path \<open>p\<close>, a frame or the exception it raises;
  \<open>write_error p\<close> is the exception that opening \<open>p\<close> for writing raises, if any; \<open>files\<close>
  holds what has been written.
\<close>

record world =
  read_result :: "string \<Rightarrow> exn + dataframe"
  write_error :: "string \<Rightarrow> exn option"
  files :: "string \<rightharpoonup> csv_file"

text \<open>\<open>pd.read_csv(None)\<close> raises ValueError (invalid file path or buffer object type).\<close>

definition read_csv :: "world \<Rightarrow> string option \<Rightarrow> exn + dataframe" where
  "read_csv w p = (case p of
       None \<Rightarrow> Inl (ValueError ''Invalid file path or buffer object type'')
     | Some q \<Rightarrow> read_result w q)"

definition to_csv :: "world \<Rightarrow> dataframe \<Rightarrow> string \<Rightarrow> exn + world" where
  "to_csv w d p = (case write_error w p of
       Some e \<Rightarrow> Inl e
     | None \<Rightarrow> Inr (w\<lparr>files := (files w)(p \<mapsto> to_csv_content d)\<rparr>))"

section \<open>DataFrame methods the class calls\<close>

subsection \<open>\<open>head\<close> and \<open>tail\<close>\<close>

text \<open>
  \<open>head(n)\<close> is \<open>iloc[:n]\<close>. \<open>tail(n)\<close> is the empty frame for \<open>n = 0\<close> and \<open>iloc[-n:]\<close>
  otherwise, so a negative \<open>n\<close> gives every row except the first \<open>|n|\<close>. Both return a
  new frame.
\<close>

definition head :: "dataframe \<Rightarrow> int \<Rightarrow> dataframe" where
  "head d n = d\<lparr>rows := (if 0 \<le> n then take (nat n) (rows d)
                         else take (length (rows d) - nat (- n)) (rows d))\<rparr>"

definition tail :: "dataframe \<Rightarrow> int \<Rightarrow> dataframe" where
  "tail d n = d\<lparr>rows := (if n = 0 then []
                         else if 0 < n then drop (length (rows d) - nat n) (rows d)
                         else drop (nat (- n)) (rows d))\<rparr>"

subsection \<open>\<open>sort_values\<close> and \<open>reset_index\<close>\<close>

text \<open>
  The order of one key: missing cells come last whatever the direction
  (\<open>na_position='last'\<close>); numbers are compared by value and texts as texts, in the
  direction given. Numbers and texts meet only where \<open>sort_values\<close> has several keys: it
  then ranks the values of a key column with numbers before texts (the reverse when
  descending). With a single key a column that mixes numbers and texts cannot be compared
  and \<open>sort_values\<close> raises TypeError.
\<close>

fun the_number :: "cell \<Rightarrow> real option" where
  "the_number (Num x) = Some x"
| "the_number (Obj x) = Some x"
| "the_number c = None"

fun cell_le :: "bool \<Rightarrow> cell \<Rightarrow> cell \<Rightarrow> bool" where
  "cell_le asc a Missing = True"
| "cell_le asc Missing b = False"
| "cell_le asc (Str s) (Str t) = (if asc then s \<le> t else t \<le> s)"
| "cell_le asc (Str s) b = (\<not> asc)"
| "cell_le asc a (Str t) = asc"
| "cell_le asc a b = (case (the_number a, the_number b) of
                        (Some x, Some y) \<Rightarrow> if asc then x \<le> y else y \<le> x
                      | _ \<Rightarrow> True)"

text \<open>Several keys: the first key on which the two rows are not ranked equal decides.\<close>

fun key_le :: "bool list \<Rightarrow> cell list \<Rightarrow> cell list \<Rightarrow> bool" where
  "key_le (f # fs) (a # as) (b # bs) =
     (if cell_le f a b \<and> cell_le f b a then key_le fs as bs else cell_le f a b)"
| "key_le fs as bs = True"

text \<open>
  The sort itself, here a stable one: rows with equal keys keep their order. The order
  pandas gives to rows with equal keys depends on the sorting algorithm; nothing below
  depends on it.
\<close>

fun insort_by :: "('a \<Rightarrow> 'a \<Rightarrow> bool) \<Rightarrow> 'a \<Rightarrow> 'a list \<Rightarrow> 'a list" where
  "insort_by le x [] = [x]"
| "insort_by le x (y # ys) = (if le x y then x # y # ys else y # insort_by le x ys)"

definition sort_by :: "('a \<Rightarrow> 'a \<Rightarrow> bool) \<Rightarrow> 'a list \<Rightarrow> 'a list" where
  "sort_by le xs = foldr (insort_by le) xs []"

definition row_key :: "string list \<Rightarrow> string list \<Rightarrow> row \<Rightarrow> cell list" where
  "row_key cs ks r = map (row_get cs (snd r)) ks"

definition row_le :: "string list \<Rightarrow> string list \<Rightarrow> bool list \<Rightarrow> row \<Rightarrow> row \<Rightarrow> bool" where
  "row_le cs ks fs r1 r2 = key_le fs (row_key cs ks r1) (row_key cs ks r2)"

definition is_num :: "cell \<Rightarrow> bool" where
  "is_num c = (the_number c \<noteq> None)"

definition is_str :: "cell \<Rightarrow> bool" where
  "is_str c = (case c of Str s \<Rightarrow> True | _ \<Rightarrow> False)"

definition col_values :: "dataframe \<Rightarrow> string \<Rightarrow> cell list" where
  "col_values d c = map (\<lambda>r. row_get (columns d) (snd r) c) (rows d)"

definition mixed :: "cell list \<Rightarrow> bool" where
  "mixed vs = (list_ex is_num vs \<and> list_ex is_str vs)"

text \<open>
  \<open>ascending\<close> as a list must be as long as the list of keys (ValueError otherwise); a single flag
  holds for every key.
\<close>

definition flags_list :: "flags \<Rightarrow> nat \<Rightarrow> exn + bool list" where
  "flags_list ascending n = (case ascending of
       Flag b \<Rightarrow> Inr (replicate n b)
     | Flags fs \<Rightarrow> if length fs \<noteq> n
                   then Inl (ValueError ''Length of ascending != length of by'')
                   else Inr fs)"

definition sort_values :: "dataframe \<Rightarrow> names \<Rightarrow> flags \<Rightarrow> exn + dataframe" where
  "sort_values d cols ascending =
     bindE (flags_list ascending (length (names_list cols))) (\<lambda>fs.
       case find (\<lambda>c. c \<notin> set (columns d)) (names_list cols) of
         Some c \<Rightarrow> Inl (KeyError c)
       | None \<Rightarrow>
           if length (names_list cols) = 1 \<and> list_ex (\<lambda>c. mixed (col_values d c)) (names_list cols)
           then Inl (TypeError ''< not supported between instances of str and float'')
           else Inr (d\<lparr>rows := sort_by (row_le (columns d) (names_list cols) fs) (rows d)\<rparr>))"

text \<open>
  \<open>reset_index()\<close> with \<open>drop=False\<close>: the old index labels become the first column, named
  \<open>index\<close>, or \<open>level_0\<close> when a column \<open>index\<close> exists; inserting a label that exists
  raises ValueError. The new index is 0 .. n-1. (An index that has a name would be inserted
  under that name; the properties below do not say which name the new column gets.)
\<close>

definition reset_index_name :: "dataframe \<Rightarrow> string" where
  "reset_index_name d = (if ''index'' \<notin> set (columns d) then ''index'' else ''level_0'')"

definition reset_index :: "dataframe \<Rightarrow> exn + dataframe" where
  "reset_index d =
     (if reset_index_name d \<in> set (columns d)
      then Inl (ValueError ''cannot insert level_0, already exists'')
      else Inr \<lparr>columns = reset_index_name d # columns d,
                rows = zip (range_index (length (rows d))) (map (\<lambda>r. fst r # snd r) (rows d))\<rparr>)"

subsection \<open>\<open>fillna\<close> and \<open>mean\<close>\<close>

definition fillna_scalar :: "dataframe \<Rightarrow> cell \<Rightarrow> dataframe" where
  "fillna_scalar d v =
     d\<lparr>rows := map (\<lambda>r. (fst r, map (\<lambda>c. if c = Missing then v else c) (snd r))) (rows d)\<rparr>"

text \<open>
  A column has a numeric dtype when it holds only \<open>Num\<close> and missing cells (an empty
  column read by \<open>read_csv\<close> is float64); a column with a text or a Python object in it has
  dtype object. The mean skips missing cells and is NaN, that is missing, when nothing is
  left. pandas computes it in float64; it is the quotient written here for the numbers of
  \<open>exact_mean\<close> below.
\<close>

definition numeric :: "cell list \<Rightarrow> bool" where
  "numeric vs = list_all (\<lambda>c. case c of Num x \<Rightarrow> True | Missing \<Rightarrow> True | _ \<Rightarrow> False) vs"

definition numbers :: "cell list \<Rightarrow> real list" where
  "numbers vs = concat (map (\<lambda>c. case c of Num x \<Rightarrow> [x] | _ \<Rightarrow> []) vs)"

definition col_mean :: "cell list \<Rightarrow> cell" where
  "col_mean vs = (if numbers vs = [] then Missing
                  else Num (sum_list (numbers vs) / real (length (numbers vs))))"

text \<open>\<open>mean(numeric_only=True)\<close>: a Series with one entry per numeric column.\<close>

definition mean_numeric :: "dataframe \<Rightarrow> (string \<times> cell) list" where
  "mean_numeric d =
     map (\<lambda>c. (c, col_mean (col_values d c)))
         (filter (\<lambda>c. numeric (col_values d c)) (columns d))"

text \<open>\<open>fillna(series)\<close>: a column is filled with the entry under its label, if there is one.\<close>

definition fillna_series :: "dataframe \<Rightarrow> (string \<times> cell) list \<Rightarrow> dataframe" where
  "fillna_series d s =
     d\<lparr>rows := map (\<lambda>r. (fst r, map (\<lambda>(c, v). case map_of s c of
                                                   Some m \<Rightarrow> if v = Missing then m else v
                                                 | None \<Rightarrow> v)
                                     (zip (columns d) (snd r)))) (rows d)\<rparr>"

subsection \<open>\<open>dropna\<close> and \<open>drop_duplicates\<close>\<close>

text \<open>
  \<open>dropna(subset=cols)\<close> keeps the rows with no missing cell under \<open>cols\<close>; a label that is
  not a column raises KeyError. \<open>dropna(axis=1, how='all')\<close> keeps the columns that have a
  cell which is not missing; it has no failure of its own.
\<close>

definition dropna_rows :: "dataframe \<Rightarrow> names \<Rightarrow> exn + dataframe" where
  "dropna_rows d cols =
     (case find (\<lambda>c. c \<notin> set (columns d)) (names_list cols) of
        Some c \<Rightarrow> Inl (KeyError c)
      | None \<Rightarrow>
          Inr (d\<lparr>rows := filter (\<lambda>r. list_all (\<lambda>c. row_get (columns d) (snd r) c \<noteq> Missing)
                                           (names_list cols)) (rows d)\<rparr>))"

definition has_value :: "dataframe \<Rightarrow> string \<Rightarrow> bool" where
  "has_value d c = list_ex (\<lambda>v. v \<noteq> Missing) (col_values d c)"

definition dropna_all_columns :: "dataframe \<Rightarrow> dataframe" where
  "dropna_all_columns d =
     \<lparr>columns = filter (has_value d) (columns d),
      rows = map (\<lambda>r. (fst r, map snd (filter (\<lambda>(c, v). has_value d c) (zip (columns d) (snd r)))))
                 (rows d)\<rparr>"

text \<open>\<open>drop_duplicates()\<close>: a row whose cells equal those of an earlier row is dropped.\<close>

fun dedup :: "cell list list \<Rightarrow> row list \<Rightarrow> row list" where
  "dedup seen [] = []"
| "dedup seen (r # rs) =
     (if snd r \<in> set seen then dedup seen rs else r # dedup (snd r # seen) rs)"

definition drop_duplicates :: "dataframe \<Rightarrow> dataframe" where
  "drop_duplicates d = d\<lparr>rows := dedup [] (rows d)\<rparr>"

subsection \<open>Column selection, \<open>clip\<close>, \<open>apply\<close> and column assignment\<close>

fun mapE :: "('a \<Rightarrow> 'e + 'b) \<Rightarrow> 'a list \<Rightarrow> 'e + 'b list" where
  "mapE f [] = Inr []"
| "mapE f (x # xs) = bindE (f x) (\<lambda>y. bindE (mapE f xs) (\<lambda>ys. Inr (y # ys)))"

text \<open>\<open>d[cols]\<close>: the frame of the columns \<open>cols\<close>; KeyError for a label that is no column.\<close>

definition getitem :: "dataframe \<Rightarrow> names \<Rightarrow> exn + dataframe" where
  "getitem d cols =
     (case find (\<lambda>c. c \<notin> set (columns d)) (names_list cols) of
        Some c \<Rightarrow> Inl (KeyError c)
      | None \<Rightarrow>
          Inr \<lparr>columns = names_list cols,
               rows = map (\<lambda>r. (fst r, map (row_get (columns d) (snd r)) (names_list cols))) (rows d)\<rparr>)"

text \<open>
  \<open>clip(lower, upper)\<close> on scalars: pandas first orders the two bounds, then raises every
  number below the lower bound to it and lowers every number above the upper bound to it.
  Missing cells stay missing. A text cannot be compared with a number: TypeError. pandas
  compares in float64, which is the comparison written here for bounds and numbers that
  float64 holds.
\<close>

fun clip_cell :: "real \<Rightarrow> real \<Rightarrow> cell \<Rightarrow> exn + cell" where
  "clip_cell lo hi (Num x) = Inr (Num (if x < lo then lo else if hi < x then hi else x))"
| "clip_cell lo hi (Obj x) = Inr (Obj (if x < lo then lo else if hi < x then hi else x))"
| "clip_cell lo hi Missing = Inr Missing"
| "clip_cell lo hi (Str s) = Inl (TypeError ''>= not supported between instances of str and float'')"

definition clip :: "dataframe \<Rightarrow> real \<Rightarrow> real \<Rightarrow> exn + dataframe" where
  "clip d lower upper =
     bindE (mapE (\<lambda>r. bindE (mapE (clip_cell (min lower upper) (max lower upper)) (snd r))
                            (\<lambda>vs. Inr (fst r, vs))) (rows d))
           (\<lambda>rs. Inr (d\<lparr>rows := rs\<rparr>))"

text \<open>
  Assigning the cells \<open>vs\<close> (one per row) to the column \<open>target\<close>: the column is
  overwritten, or appended when it is new.
\<close>

definition set_column :: "dataframe \<Rightarrow> string \<Rightarrow> cell list \<Rightarrow> dataframe" where
  "set_column d target vs =
     (if target \<in> set (columns d)
      then d\<lparr>rows := map (\<lambda>(r, v). (fst r, map (\<lambda>(c, x). if c = target then v else x)
                                              (zip (columns d) (snd r))))
                        (zip (rows d) vs)\<rparr>
      else \<lparr>columns = columns d @ [target],
            rows = map (\<lambda>(r, v). (fst r, snd r @ [v])) (zip (rows d) vs)\<rparr>)"

text \<open>
  \<open>d[cols] = value\<close> for a frame \<open>value\<close> over the same rows, done in the frame \<open>d\<close>
  itself. With a single label the column is assigned. With a list of labels pandas first
  checks that \<open>value\<close> has as many columns as the list has labels and then assigns one
  column after the other, \<open>d[k1] = value[k2]\<close> for the pairs of the list and the columns of
  \<open>value\<close>. Where a label occurs twice in \<open>value\<close>, \<open>value[k2]\<close> is a frame of two columns
  and the assignment raises ValueError; the columns assigned before stay assigned. The
  result is the frame as the assignment leaves it, and the exception if there was one.
\<close>

fun assign_columns :: "dataframe \<Rightarrow> (string \<times> string) list \<Rightarrow> dataframe \<Rightarrow> dataframe \<times> exn option" where
  "assign_columns d [] v = (d, None)"
| "assign_columns d ((k1, k2) # ks) v =
     (if count_list (columns v) k2 > 1
      then (d, Some (ValueError ''Columns must be same length as key''))
      else assign_columns (set_column d k1 (col_values v k2)) ks v)"

definition setitem_frame :: "dataframe \<Rightarrow> names \<Rightarrow> dataframe \<Rightarrow> dataframe \<times> exn option" where
  "setitem_frame d cols v =
     (case cols of
        Name c \<Rightarrow> (set_column d c (col_values v c), None)
      | Names cs \<Rightarrow>
          if length (columns v) \<noteq> length cs
          then (d, Some (ValueError ''Columns must be same length as key''))
          else assign_columns d (zip cs (columns v)) v)"

text \<open>
  A Series: labels with their values. \<open>apply(criteria, axis)\<close> calls \<open>criteria\<close> on every row
  (\<open>axis = 1\<close>; the row as a Series over the column labels, named by its index label) or on
  every column (\<open>axis = 0\<close>); the first call that raises ends it, with whatever
  \<open>criteria\<close> raised. \<open>criteria\<close> returns a scalar. Any other axis raises ValueError.
\<close>

type_synonym series = "(cell \<times> cell) list"

definition apply_frame ::
    "dataframe \<Rightarrow> (cell \<times> series \<Rightarrow> base_exn + cell) \<Rightarrow> int \<Rightarrow> base_exn + series" where
  "apply_frame d criteria axis =
     (if axis = 1 then
        bindE (mapE (\<lambda>r. criteria (fst r, zip (map Str (columns d)) (snd r))) (rows d))
              (\<lambda>vs. Inr (zip (map fst (rows d)) vs))
      else if axis = 0 then
        bindE (mapE (\<lambda>c. criteria (Str c, zip (map fst (rows d)) (col_values d c))) (columns d))
              (\<lambda>vs. Inr (zip (map Str (columns d)) vs))
      else Inl (Exc (ValueError ''No axis named'')))"

text \<open>
  \<open>d[target] = series\<close>: the Series is aligned on the row index (a label it lacks gives a
  missing cell; aligning a Series with duplicate labels raises ValueError, unless its index
  is the frame's own), then assigned to the column \<open>target\<close>.
\<close>

definition setitem_series :: "dataframe \<Rightarrow> string \<Rightarrow> series \<Rightarrow> exn + dataframe" where
  "setitem_series d target s =
     (if map fst s = map fst (rows d) then Inr (set_column d target (map snd s))
      else if \<not> distinct (map fst s)
           then Inl (ValueError ''cannot reindex on an axis with duplicate labels'')
           else Inr (set_column d target
                       (map (\<lambda>r. case map_of s (fst r) of Some v \<Rightarrow> v | None \<Rightarrow> Missing) (rows d))))"

section \<open>The handler\<close>

text \<open>
  The object: \<open>file_path\<close>, and the private \<open>__df\<close>, which does not exist until
  \<open>try_update_df\<close> has assigned it (\<open>None\<close> here). Reading the property \<open>df\<close> of a handler
  whose \<open>__df\<close> was never assigned raises AttributeError.
\<close>

record handler =
  file_path :: "string option"
  df_attr :: "dataframe option"

definition df :: "handler \<Rightarrow> exn + dataframe" where
  "df self = (case df_attr self of
       None \<Rightarrow> Inl (AttributeError ''_BaseDataHandler__df'')
     | Some d \<Rightarrow> Inr d)"

text \<open>
  What a \<open>try_*\<close> method hands back: \<open>Inr (success, e)\<close> is the returned pair, \<open>Inl r\<close> is
  the exception \<open>r\<close> reaching the caller. \<open>except Exception as e: return False, e\<close> turns
  an \<open>Exception\<close> into the pair and lets every other exception pass. The bodies of seven
  of the methods call pandas and the file system only, which raise nothing but
  \<open>Exception\<close>s; \<open>try_add_col\<close> also calls the function it is given.
\<close>

type_synonym outcome = "base_exn + (bool \<times> exn option)"

definition except_Exception :: "base_exn \<Rightarrow> outcome" where
  "except_Exception r = (case r of Exc e \<Rightarrow> Inr (False, Some e) | _ \<Rightarrow> Inl r)"


text \<open>
  \<open>__init__\<close>: stores the path, calls \<open>try_update_df\<close> and prints the exception when
  that failed. The second component of the result is what was printed.
\<close>

definition try_update_df :: "world \<Rightarrow> handler \<Rightarrow> dataframe option \<Rightarrow> handler \<times> outcome" where
  "try_update_df w self d =
     (case (case d of
              Some d' \<Rightarrow> Inr d'
            | None \<Rightarrow> read_csv w (file_path self)) of
        Inl e \<Rightarrow> (self, Inr (False, Some e))
      | Inr d' \<Rightarrow> (self\<lparr>df_attr := Some d'\<rparr>, Inr (True, None)))"

definition init ::
    "world \<Rightarrow> string option \<Rightarrow> dataframe option \<Rightarrow> base_exn + (handler \<times> exn option list)" where
  "init w path d =
     (case try_update_df w \<lparr>file_path = path, df_attr = None\<rparr> d of
        (self, Inl e) \<Rightarrow> Inl e
      | (self, Inr (success, e)) \<Rightarrow> Inr (self, if \<not> success then [e] else []))"

text \<open>\<open>get_lines\<close> has no \<open>try\<close>: what \<open>self.df\<close> raises reaches the caller.\<close>

definition get_lines :: "handler \<Rightarrow> int \<Rightarrow> exn + dataframe" where
  "get_lines self amount =
     (if amount > 0 then bindE (df self) (\<lambda>d. Inr (head d amount))
      else bindE (df self) (\<lambda>d. Inr (tail d amount)))"

definition try_order_by :: "handler \<Rightarrow> names \<Rightarrow> flags \<Rightarrow> handler \<times> outcome" where
  "try_order_by self cols ascending =
     (case bindE (df self) (\<lambda>d. bindE (sort_values d cols ascending) reset_index) of
        Inl e \<Rightarrow> (self, Inr (False, Some e))
      | Inr d' \<Rightarrow> (self\<lparr>df_attr := Some d'\<rparr>, Inr (True, None)))"

text \<open>\<open>fillna(0 if use_mean else self.df.mean(numeric_only=True))\<close>.\<close>

definition try_fill_nan :: "handler \<Rightarrow> bool \<Rightarrow> handler \<times> outcome" where
  "try_fill_nan self use_mean =
     (case bindE (df self) (\<lambda>d.
             if use_mean then Inr (fillna_scalar d (Num 0))
             else bindE (df self) (\<lambda>d2. Inr (fillna_series d (mean_numeric d2)))) of
        Inl e \<Rightarrow> (self, Inr (False, Some e))
      | Inr d' \<Rightarrow> (self\<lparr>df_attr := Some d'\<rparr>, Inr (True, None)))"

text \<open>
  \<open>self.__df[target_col] = self.df.apply(criteria, axis=axis)\<close>: the right-hand side is
  evaluated first, then the column is assigned in the frame the handler holds.
\<close>

definition try_add_col ::
    "handler \<Rightarrow> string \<Rightarrow> (cell \<times> series \<Rightarrow> base_exn + cell) \<Rightarrow> int \<Rightarrow> handler \<times> outcome" where
  "try_add_col self target_col criteria axis =
     (case bindE (liftE (df self)) (\<lambda>d. bindE (apply_frame d criteria axis) (\<lambda>s.
             liftE (bindE (df self) (\<lambda>d0. setitem_series d0 target_col s)))) of
        Inl r \<Rightarrow> (self, except_Exception r)
      | Inr d' \<Rightarrow> (self\<lparr>df_attr := Some d'\<rparr>, Inr (True, None)))"

definition try_remove_duplicates :: "handler \<Rightarrow> handler \<times> outcome" where
  "try_remove_duplicates self =
     (case bindE (df self) (\<lambda>d. Inr (drop_duplicates d)) of
        Inl e \<Rightarrow> (self, Inr (False, Some e))
      | Inr d' \<Rightarrow> (self\<lparr>df_attr := Some d'\<rparr>, Inr (True, None)))"

text \<open>
  \<open>try_save\<close>: \<open>self.file_path.replace\<close> raises AttributeError when the path is \<open>None\<close>;
  the table is not assigned.
\<close>

definition try_save :: "world \<Rightarrow> handler \<Rightarrow> world \<times> outcome" where
  "try_save w self =
     (case bindE (case file_path self of
                     None \<Rightarrow> Inl (AttributeError ''replace'')
                   | Some p \<Rightarrow> Inr (str_replace ''.csv'' ''_new.csv'' p))
                 (\<lambda>new_file_path. bindE (df self) (\<lambda>d. to_csv w d new_file_path)) of
        Inl e \<Rightarrow> (w, Inr (False, Some e))
      | Inr w' \<Rightarrow> (w', Inr (True, None)))"


text \<open>
  \<open>try_drop_nan\<close> assigns \<open>__df\<close> twice inside one \<open>try\<close>: an exception in the second
  statement would leave the first assignment in place.
\<close>

definition try_drop_nan :: "handler \<Rightarrow> names \<Rightarrow> handler \<times> outcome" where
  "try_drop_nan self cols =
     (case bindE (df self) (\<lambda>d. dropna_rows d cols) of
        Inl e \<Rightarrow> (self, Inr (False, Some e))
      | Inr d1 \<Rightarrow>
          (let self1 = self\<lparr>df_attr := Some d1\<rparr> in
           case bindE (df self1) (\<lambda>d. Inr (dropna_all_columns d)) of
             Inl e \<Rightarrow> (self1, Inr (False, Some e))
           | Inr d2 \<Rightarrow> (self1\<lparr>df_attr := Some d2\<rparr>, Inr (True, None))))"

text \<open>
  \<open>self.__df[cols] = self.df[cols].clip(min_v, max_v)\<close>: the right-hand side is evaluated
  first; the assignment then works in the frame the handler holds, so what it has assigned
  when it raises stays in the table.
\<close>

definition try_clamp_cols :: "handler \<Rightarrow> names \<Rightarrow> real \<Rightarrow> real \<Rightarrow> handler \<times> outcome" where
  "try_clamp_cols self cols min_v max_v =
     (case bindE (df self) (\<lambda>d. bindE (getitem d cols) (\<lambda>sel. clip sel min_v max_v)) of
        Inl e \<Rightarrow> (self, Inr (False, Some e))
      | Inr v \<Rightarrow>
          (case df self of
             Inl e \<Rightarrow> (self, Inr (False, Some e))
           | Inr d0 \<Rightarrow>
               (case setitem_frame d0 cols v of
                  (d', Some e) \<Rightarrow> (self\<lparr>df_attr := Some d'\<rparr>, Inr (False, Some e))
                | (d', None) \<Rightarrow> (self\<lparr>df_attr := Some d'\<rparr>, Inr (True, None)))))"

section \<open>Vocabulary of the properties\<close>

text \<open>The cell in row \<open>i\<close> (by position) under the column label \<open>c\<close>.\<close>

definition cell_at :: "dataframe \<Rightarrow> nat \<Rightarrow> string \<Rightarrow> cell" where
  "cell_at d i c = row_get (columns d) (snd (rows d ! i)) c"

text \<open>A cell that holds a number of the closed interval.\<close>

definition in_range :: "real \<Rightarrow> real \<Rightarrow> cell \<Rightarrow> bool" where
  "in_range lo hi v = (case v of Num x \<Rightarrow> lo \<le> x \<and> x \<le> hi | _ \<Rightarrow> False)"

text \<open>
  The numbers float64 holds: an integer of less than 54 bits times a power of two of the
  exponent range. Among them are the integers up to \<open>2^53\<close> in absolute value.
\<close>

definition float64 :: "real \<Rightarrow> bool" where
  "float64 x = (\<exists>m k. \<bar>m\<bar> < 2 ^ 53 \<and>
       (k \<le> 971 \<and> x = real_of_int m * 2 ^ k \<or> k \<le> 1074 \<and> x * 2 ^ k = real_of_int m))"


text \<open>\<open>sub in s\<close> of Python: the text \<open>sub\<close> occurs in \<open>s\<close>.\<close>

fun occurs :: "string \<Rightarrow> string \<Rightarrow> bool" where
  "occurs sub [] = (sub = [])"
| "occurs sub (c # cs) = (take (length sub) (c # cs) = sub \<or> occurs sub cs)"

text \<open>
  A call of one of the eight \<open>try_*\<close> methods, and what it does to the world and the
  handler. \<open>try_save\<close> assigns nothing in the handler; the other seven do not touch the
  files.
\<close>

datatype call =
    OrderBy names flags
  | FillNan bool
  | AddCol string "cell \<times> series \<Rightarrow> base_exn + cell" int
  | RemoveDuplicates
  | Save
  | DropNan names
  | ClampCols names real real
  | UpdateDf "dataframe option"

fun run :: "call \<Rightarrow> world \<times> handler \<Rightarrow> (world \<times> handler) \<times> outcome" where
  "run (OrderBy cols ascending) (w, self) =
     (case try_order_by self cols ascending of (self', r) \<Rightarrow> ((w, self'), r))"
| "run (FillNan use_mean) (w, self) =
     (case try_fill_nan self use_mean of (self', r) \<Rightarrow> ((w, self'), r))"
| "run (AddCol target_col criteria axis) (w, self) =
     (case try_add_col self target_col criteria axis of (self', r) \<Rightarrow> ((w, self'), r))"
| "run RemoveDuplicates (w, self) =
     (case try_remove_duplicates self of (self', r) \<Rightarrow> ((w, self'), r))"
| "run Save (w, self) =
     (case try_save w self of (w', r) \<Rightarrow> ((w', self), r))"
| "run (DropNan cols) (w, self) =
     (case try_drop_nan self cols of (self', r) \<Rightarrow> ((w, self'), r))"
| "run (ClampCols cols min_v max_v) (w, self) =
     (case try_clamp_cols self cols min_v max_v of (self', r) \<Rightarrow> ((w, self'), r))"
| "run (UpdateDf d) (w, self) =
     (case try_update_df w self d of (self', r) \<Rightarrow> ((w, self'), r))"


subsection \<open>Example data\<close>

text \<open>The table of the specification's scenario: rows (a=1, b=2), (a=1, b=2), (a=3, b missing).\<close>

definition demo_frame :: dataframe where
  "demo_frame = \<lparr>columns = [''a'', ''b''],
     rows = [(Num 0, [Num 1, Num 2]), (Num 1, [Num 1, Num 2]), (Num 2, [Num 3, Missing])]\<rparr>"

text \<open>A world with no readable file, in which every write succeeds.\<close>

definition demo_world :: world where
  "demo_world = \<lparr>read_result = (\<lambda>p. Inl (OSError ''No such file or directory'')),
                  write_error = (\<lambda>p. None), files = Map.empty\<rparr>"

definition demo_handler :: handler where
  "demo_handler = \<lparr>file_path = Some ''data.csv'', df_attr = Some demo_frame\<rparr>"

text \<open>A second example: a text column and a numeric column, the second row all missing.\<close>

definition demo_text_frame :: dataframe where
  "demo_text_frame = \<lparr>columns = [''name'', ''x''],
     rows = [(Num 0, [Str ''kia'', Num 4]), (Num 1, [Missing, Missing]), (Num 2, [Str ''bmw'', Num 1])]\<rparr>"

text \<open>
  A table for \<open>try_fill_nan\<close>: a text column, two numeric columns and an object column of
  numbers, the second row all missing; and a table with a numeric column that is entirely
  missing.
\<close>

definition demo_fill_frame :: dataframe where
  "demo_fill_frame = \<lparr>columns = [''name'', ''x'', ''y'', ''z''],
     rows = [(Num 0, [Str ''kia'', Num 4, Num 10, Obj 7]),
             (Num 1, [Missing, Missing, Missing, Missing]),
             (Num 2, [Str ''bmw'', Num 1, Num 4, Obj 1])]\<rparr>"


text \<open>
  A table for \<open>try_drop_nan\<close>: \<open>b\<close> has a value in a row that stays and is missing in
  another, \<open>c\<close> is entirely missing, \<open>e\<close> has its only value in the row that is dropped.
\<close>

definition demo_drop_frame :: dataframe where
  "demo_drop_frame = \<lparr>columns = [''a'', ''b'', ''c'', ''e''],
     rows = [(Num 0, [Num 1, Num 5, Missing, Missing]),
             (Num 1, [Missing, Num 6, Missing, Num 9]),
             (Num 2, [Num 3, Missing, Missing, Missing])]\<rparr>"

text \<open>A table in which each row misses the value of one column.\<close>

definition demo_cross_frame :: dataframe where
  "demo_cross_frame = \<lparr>columns = [''a'', ''b''],
     rows = [(Num 0, [Num 1, Missing]), (Num 1, [Missing, Num 2])]\<rparr>"

text \<open>The second example sorted by \<open>x\<close>, ascending, once and twice.\<close>

definition demo_sorted_once :: dataframe where
  "demo_sorted_once = \<lparr>columns = [''index'', ''name'', ''x''],
     rows = [(Num 0, [Num 2, Str ''bmw'', Num 1]), (Num 1, [Num 0, Str ''kia'', Num 4]),
             (Num 2, [Num 1, Missing, Missing])]\<rparr>"

definition demo_sorted_twice :: dataframe where
  "demo_sorted_twice = \<lparr>columns = [''level_0'', ''index'', ''name'', ''x''],
     rows = [(Num 0, [Num 0, Num 2, Str ''bmw'', Num 1]), (Num 1, [Num 1, Num 0, Str ''kia'', Num 4]),
             (Num 2, [Num 2, Num 1, Missing, Missing])]\<rparr>"

section \<open>General lemmas\<close>

lemma find_None_iff_all: "find P xs = None \<longleftrightarrow> (\<forall>x\<in>set xs. \<not> P x)"
  by (induction xs) auto


lemma mapE_Inr: "mapE f xs = Inr ys \<Longrightarrow> list_all2 (\<lambda>x y. f x = Inr y) xs ys"
  by (induction xs arbitrary: ys) (auto simp: bindE_def split: sum.splits)


lemma map_of_zip_all2:
  "list_all2 (\<lambda>k y. g k = Inr y) ks ys \<Longrightarrow> c \<in> set ks \<Longrightarrow>
     \<exists>y. map_of (zip ks ys) c = Some y \<and> g c = Inr y"
  by (induction ks ys rule: list_all2_induct) auto

lemma map_of_zip_map_zip:
  "map_of (zip cs (map f (zip cs vs))) c = map_option (\<lambda>x. f (c, x)) (map_of (zip cs vs) c)"
proof (induction cs arbitrary: vs)
  case Nil then show ?case by simp
next
  case (Cons k ks)
  then show ?case by (cases vs) auto
qed


lemma row_get_map_zip:
  "row_get cs (map (\<lambda>(k, x). f k x) (zip cs vs)) c =
     (case map_of (zip cs vs) c of None \<Rightarrow> Missing | Some x \<Rightarrow> f c x)"
  by (simp add: row_get_def map_of_zip_map_zip split: option.splits)

lemma map_of_zip_Some:
  "c \<in> set cs \<Longrightarrow> length vs = length cs \<Longrightarrow> \<exists>x. map_of (zip cs vs) c = Some x"
  by (metis map_of_zip_is_Some not_None_eq)


lemma zip_filter_keys:
  "length vs = length cs \<Longrightarrow>
     zip (filter P cs) (map snd (filter (\<lambda>(c, v). P c) (zip cs vs))) = filter (\<lambda>(c, v). P c) (zip cs vs)"
  by (induction cs vs rule: list_induct2') auto

lemma map_of_filter_keys:
  "map_of (filter (\<lambda>(c, v). P c) kvs) c = (if P c then map_of kvs c else None)"
  by (induction kvs) auto

lemma row_get_filter_keys:
  "length vs = length cs \<Longrightarrow>
     row_get (filter P cs) (map snd (filter (\<lambda>(c, v). P c) (zip cs vs))) c =
       (if P c then row_get cs vs c else Missing)"
  by (simp add: row_get_def zip_filter_keys map_of_filter_keys)

lemma wf_row: "wf_df d \<Longrightarrow> i < length (rows d) \<Longrightarrow> length (snd (rows d ! i)) = length (columns d)"
  by (simp add: wf_df_def list_all_length)

lemma wf_row_mem: "wf_df d \<Longrightarrow> r \<in> set (rows d) \<Longrightarrow> length (snd r) = length (columns d)"
  by (simp add: wf_df_def list_all_iff)

lemma has_value_iff:
  "has_value d c \<longleftrightarrow> (\<exists>r\<in>set (rows d). row_get (columns d) (snd r) c \<noteq> Missing)"
  by (auto simp: has_value_def col_values_def list_ex_iff)

lemma wf_demo_frame: "wf_df demo_frame"
  by (simp add: wf_df_def demo_frame_def)

section \<open>The result contract\<close>

subsection \<open>A failed call and the table\<close>

lemma atomic_order_by: "try_order_by self cols asc = (self', Inr (False, e)) \<Longrightarrow> self' = self"
  by (auto simp: try_order_by_def split: sum.splits)

lemma atomic_fill_nan: "try_fill_nan self m = (self', Inr (False, e)) \<Longrightarrow> self' = self"
  by (auto simp: try_fill_nan_def split: sum.splits)

lemma atomic_add_col: "try_add_col self t f a = (self', Inr (False, e)) \<Longrightarrow> self' = self"
  by (auto simp: try_add_col_def split: sum.splits)

lemma atomic_remove_duplicates:
  "try_remove_duplicates self = (self', Inr (False, e)) \<Longrightarrow> self' = self"
  by (auto simp: try_remove_duplicates_def split: sum.splits)

text \<open>
  \<open>try_drop_nan\<close> has two assignments: the second statement cannot raise once the first
  has succeeded, so no failure is reported after the first assignment.
\<close>

lemma atomic_drop_nan: "try_drop_nan self cols = (self', Inr (False, e)) \<Longrightarrow> self' = self"
  by (auto simp: try_drop_nan_def Let_def df_def bindE_def split: sum.splits option.splits)

lemma atomic_update_df: "try_update_df w self d = (self', Inr (False, e)) \<Longrightarrow> self' = self"
  by (auto simp: try_update_df_def split: sum.splits option.splits)

text \<open>
  \<open>try_clamp_cols\<close> assigns in place. With one label, or a list of labels that are all
  different, the assignment cannot raise, and a failure comes from the right-hand side only.
\<close>

lemma count_list_distinct: "distinct xs \<Longrightarrow> count_list xs x \<le> 1"
  by (induction xs) (auto simp: count_notin)

lemma assign_columns_distinct:
  "distinct (columns v) \<Longrightarrow> \<exists>d'. assign_columns d ks v = (d', None)"
proof (induction ks arbitrary: d)
  case Nil
  show ?case by simp
next
  case (Cons k ks)
  obtain k1 k2 where k: "k = (k1, k2)" by (cases k)
  have "\<not> count_list (columns v) k2 > 1"
    using count_list_distinct[OF Cons.prems, of k2] by simp
  with Cons.IH[OF Cons.prems] k show ?case by simp
qed

lemma clip_columns: "clip s lo hi = Inr v \<Longrightarrow> columns v = columns s"
  by (auto simp: clip_def bindE_def split: sum.splits)

lemma getitem_columns: "getitem d cols = Inr s \<Longrightarrow> columns s = names_list cols"
  by (auto simp: getitem_def split: option.splits)

lemma atomic_clamp_cols:
  assumes "try_clamp_cols self cols lo hi = (self', Inr (False, e))"
    and "distinct (names_list cols)"
  shows "self' = self"
proof (cases "bindE (df self) (\<lambda>d. bindE (getitem d cols) (\<lambda>sel. clip sel lo hi))")
  case (Inl e')
  with assms(1) show ?thesis by (simp add: try_clamp_cols_def)
next
  case (Inr v)
  then obtain d s where d: "df self = Inr d" and s: "getitem d cols = Inr s"
    and v: "clip s lo hi = Inr v"
    by (auto simp: bindE_def split: sum.splits)
  have cv: "columns v = names_list cols"
    using clip_columns[OF v] getitem_columns[OF s] by simp
  then have dv: "distinct (columns v)" using assms(2) by simp
  have "\<exists>d'. setitem_frame d cols v = (d', None)"
  proof (cases cols)
    case (Name c)
    then show ?thesis by (simp add: setitem_frame_def)
  next
    case (Names cs)
    with cv assign_columns_distinct[OF dv, of d "zip cs (columns v)"] show ?thesis
      by (simp add: setitem_frame_def)
  qed
  with assms(1) Inr d show ?thesis
    by (auto simp: try_clamp_cols_def)
qed

lemma failed_try_keeps_table_distinct:
  assumes "run c (w, self) = ((w', self'), Inr (False, e))"
    and "\<forall>cs lo hi. c = ClampCols (Names cs) lo hi \<longrightarrow> distinct cs"
  shows "df_attr self' = df_attr self"
proof (cases c)
  case (ClampCols cols lo hi)
  have "distinct (names_list cols)"
    using assms(2) ClampCols by (cases cols) auto
  with assms(1) ClampCols show ?thesis
    by (auto split: prod.splits dest: atomic_clamp_cols)
qed (use assms(1) in \<open>auto split: prod.splits dest: atomic_order_by atomic_fill_nan atomic_add_col
       atomic_remove_duplicates atomic_drop_nan atomic_update_df\<close>)

text \<open>
  C1. A failed \<open>try_*\<close> call leaves the table as it was: the methods that build a new frame
  and assign it do so (\<open>failed_try_keeps_table_distinct\<close>), and so does \<open>try_clamp_cols\<close> for
  labels that are all different. \<open>try_clamp_cols\<close> assigns in the frame the handler holds,
  one column after the other, and misses the case of a label given twice: on the example,
  \<open>try_clamp_cols(["a", "b", "b"], 2, 200)\<close> returns \<open>(False, ValueError)\<close> after it has
  clamped the column \<open>a\<close> from 1, 1, 3 to 2, 2, 3, so the table after the failed call is not
  the table before it.
\<close>

theorem failed_clamp_changes_table:
  "try_clamp_cols demo_handler (Names [''a'', ''b'', ''b'']) 2 200 =
     (demo_handler\<lparr>df_attr := Some \<lparr>columns = [''a'', ''b''],
         rows = [(Num 0, [Num 2, Num 2]), (Num 1, [Num 2, Num 2]), (Num 2, [Num 3, Missing])]\<rparr>\<rparr>,
      Inr (False, Some (ValueError ''Columns must be same length as key''))) \<and>
   df_attr demo_handler = Some \<lparr>columns = [''a'', ''b''],
         rows = [(Num 0, [Num 1, Num 2]), (Num 1, [Num 1, Num 2]), (Num 2, [Num 3, Missing])]\<rparr>"
  by (simp add: try_clamp_cols_def df_def bindE_def getitem_def clip_def setitem_frame_def
        set_column_def col_values_def row_get_def demo_handler_def demo_frame_def)

subsection \<open>Exceptions and the caller\<close>

























section \<open>Saving\<close>

lemma str_replace_absent: "old \<noteq> [] \<Longrightarrow> \<not> occurs old p \<Longrightarrow> str_replace old new p = p"
  by (induction p) auto

lemma save_path_data_csv: "str_replace ''.csv'' ''_new.csv'' ''data.csv'' = ''data_new.csv''"
  by simp

lemma save_path_no_csv: "\<not> occurs ''.csv'' p \<Longrightarrow> str_replace ''.csv'' ''_new.csv'' p = p"
  by (rule str_replace_absent) simp_all

text \<open>
  C3. The output path of \<open>try_save\<close> is the source path with \<open>.csv\<close> replaced by
  \<open>_new.csv\<close>. The docstring of \<open>try_save\<close> and the specification say that only the first
  occurrence is replaced; \<open>str.replace\<close> without a count replaces every occurrence. The two
  agree on a path with at most one \<open>.csv\<close> (\<open>save_path_no_csv\<close>, \<open>save_path_data_csv\<close>) and
  differ on \<open>cars.csv.old.csv\<close>: the method writes \<open>cars_new.csv.old_new.csv\<close>, and nothing
  to \<open>cars_new.csv.old.csv\<close>, the path with the first occurrence replaced.
\<close>

theorem try_save_replaces_every_occurrence:
  "try_save demo_world \<lparr>file_path = Some ''cars.csv.old.csv'', df_attr = Some demo_frame\<rparr> =
     (demo_world\<lparr>files := [''cars_new.csv.old_new.csv'' \<mapsto> to_csv_content demo_frame]\<rparr>,
      Inr (True, None)) \<and>
   replace_first ''.csv'' ''_new.csv'' ''cars.csv.old.csv'' = ''cars_new.csv.old.csv'' \<and>
   files (fst (try_save demo_world \<lparr>file_path = Some ''cars.csv.old.csv'', df_attr = Some demo_frame\<rparr>))
     ''cars_new.csv.old.csv'' = None"
  by (simp add: try_save_def bindE_def df_def to_csv_def demo_world_def)

lemma try_save_written:
  assumes "file_path self = Some p" and "df_attr self = Some d"
    and "try_save w self = (w', Inr (True, None))"
  shows "files w' (str_replace ''.csv'' ''_new.csv'' p) = Some (to_csv_content d)"
  using assms
  by (auto simp: try_save_def bindE_def df_def to_csv_def split: option.splits)

text \<open>
  C10. A successful \<open>try_save\<close> writes the row index as an extra first column: the header of
  the written file is an empty field followed by the column labels of the table, every
  record is the index label of a row followed by its cells, whether or not \<open>try_order_by\<close>
  was ever called. So the header has one field more than the table has columns and is never
  the list of the table's columns, which is the header of a source file without such a
  column.
\<close>

theorem save_writes_index_column:
  assumes "file_path self = Some p" and "df_attr self = Some d"
    and "try_save w self = (w', Inr (True, None))"
  shows "\<exists>f. files w' (str_replace ''.csv'' ''_new.csv'' p) = Some f \<and>
           header f = [] # columns d \<and>
           records f = map (\<lambda>r. fst r # snd r) (rows d) \<and>
           length (header f) = Suc (length (columns d)) \<and>
           header f \<noteq> columns d"
  using try_save_written[OF assms] by (simp add: to_csv_content_def)

theorem save_writes_index_column_witness:
  "try_save demo_world demo_handler =
     (demo_world\<lparr>files := [''data_new.csv'' \<mapsto> to_csv_content demo_frame]\<rparr>, Inr (True, None)) \<and>
   (\<exists>f. [''data_new.csv'' \<mapsto> to_csv_content demo_frame] ''data_new.csv'' = Some f \<and>
        header f = [[], ''a'', ''b''] \<and>
        records f = [[Num 0, Num 1, Num 2], [Num 1, Num 1, Num 2], [Num 2, Num 3, Missing]])"
proof -
  have h1: "file_path demo_handler = Some ''data.csv''"
    and h2: "df_attr demo_handler = Some demo_frame"
    by (simp_all add: demo_handler_def)
  have h3: "try_save demo_world demo_handler =
     (demo_world\<lparr>files := [''data_new.csv'' \<mapsto> to_csv_content demo_frame]\<rparr>, Inr (True, None))"
    by (simp add: try_save_def bindE_def df_def to_csv_def demo_world_def demo_handler_def)
  show ?thesis
    using h3 save_writes_index_column[OF h1 h2 h3]
    by (simp add: demo_frame_def)
qed

section \<open>Construction and \<open>get_lines\<close>\<close>

lemma get_lines_populated:
  "df_attr self = Some d \<Longrightarrow>
     get_lines self n = Inr (d\<lparr>rows := (if 0 < n then take (nat n) (rows d)
                                       else if n = 0 then [] else drop (nat (- n)) (rows d))\<rparr>)"
  by (auto simp: get_lines_def df_def bindE_def head_def tail_def)

lemma get_lines_unset:
  "df_attr self = None \<Longrightarrow> get_lines self n = Inl (AttributeError ''_BaseDataHandler__df'')"
  by (simp add: get_lines_def df_def bindE_def)

lemma init_unreadable:
  "read_csv w path = Inl e \<Longrightarrow> init w path None = Inr (\<lparr>file_path = path, df_attr = None\<rparr>, [Some e])"
  by (simp add: init_def try_update_df_def)

lemma init_returns: "\<exists>self out. init w path d = Inr (self, out)"
  by (auto simp: init_def try_update_df_def split: sum.splits option.splits)

text \<open>
  What \<open>get_lines\<close> returns on a handler that holds a table, for every amount: the first
  \<open>min(n, rowCount)\<close> rows for \<open>n > 0\<close>, no row for \<open>n = 0\<close>, and for \<open>n < 0\<close> every row
  except the first \<open>|n|\<close>. The method returns a new frame and assigns nothing, so the
  handler and its table are as before.
\<close>

lemma get_lines_every_amount:
  assumes "df_attr self = Some d"
  shows "(0 < n \<longrightarrow> get_lines self n = Inr (d\<lparr>rows := take (min (nat n) (length (rows d))) (rows d)\<rparr>)) \<and>
         (n = 0 \<longrightarrow> get_lines self n = Inr (d\<lparr>rows := []\<rparr>)) \<and>
         (n < 0 \<longrightarrow> get_lines self n = Inr (d\<lparr>rows := drop (nat (- n)) (rows d)\<rparr>) \<and>
                    length (drop (nat (- n)) (rows d)) = length (rows d) - nat (- n))"
  using get_lines_populated[OF assms, of n] by (auto simp: min_def)

text \<open>
  C6. The docstring of \<open>get_lines\<close> calls \<open>amount\<close> the number of rows to return, from the
  top when positive and from the bottom when not, which is what the claim states: the
  trailing \<open>min(|n|, rowCount)\<close> rows for \<open>n \<le> 0\<close>. The code passes the non-positive
  amount to \<open>tail\<close> as it is, and \<open>tail\<close> of a negative number drops that many rows from
  the top instead. On the three rows of the example, \<open>get_lines(-1)\<close> returns the last two
  rows, where the trailing \<open>min(|-1|, 3) = 1\<close> row is documented; \<open>get_lines(2)\<close> returns
  the first two rows and \<open>get_lines(0)\<close> none, as claimed.
\<close>

theorem get_lines_negative_amount:
  "get_lines demo_handler (- 1) =
     Inr \<lparr>columns = [''a'', ''b''], rows = [(Num 1, [Num 1, Num 2]), (Num 2, [Num 3, Missing])]\<rparr> \<and>
   min (nat \<bar>- 1\<bar>) (length (rows demo_frame)) = 1 \<and>
   get_lines demo_handler 2 =
     Inr \<lparr>columns = [''a'', ''b''], rows = [(Num 0, [Num 1, Num 2]), (Num 1, [Num 1, Num 2])]\<rparr> \<and>
   get_lines demo_handler 0 = Inr \<lparr>columns = [''a'', ''b''], rows = []\<rparr>"
  by (simp add: get_lines_def df_def bindE_def head_def tail_def demo_handler_def demo_frame_def)

text \<open>
  C9 as the claim states it fails in its last part: after a construction with no path and no
  table, \<open>get_lines()\<close> (amount 5) neither returns an empty result nor reports a failure;
  the AttributeError raised by the property \<open>df\<close> reaches the caller.
\<close>

theorem get_lines_unset_counterexample:
  "init demo_world None None =
     Inr (\<lparr>file_path = None, df_attr = None\<rparr>,
          [Some (ValueError ''Invalid file path or buffer object type'')]) \<and>
   get_lines \<lparr>file_path = None, df_attr = None\<rparr> 5 = Inl (AttributeError ''_BaseDataHandler__df'')"
  by (simp add: init_def try_update_df_def read_csv_def get_lines_def df_def bindE_def)

text \<open>
  C9, amended. Construction never raises. With no table given and a path that is not set or
  cannot be read, the handler is constructed with its path and without a table, and the
  exception of the failed read is printed. On a handler without a table \<open>get_lines\<close> raises
  AttributeError to its caller, for every amount: the method has no \<open>try\<close>.
\<close>

theorem init_never_aborts:
  "(\<exists>self out. init w path d = Inr (self, out)) \<and>
   (read_csv w path = Inl e \<longrightarrow>
      init w path None = Inr (\<lparr>file_path = path, df_attr = None\<rparr>, [Some e]) \<and>
      get_lines \<lparr>file_path = path, df_attr = None\<rparr> n = Inl (AttributeError ''_BaseDataHandler__df''))"
  using init_returns[of w path d] by (simp add: init_unreadable get_lines_unset)

theorem init_never_aborts_witness:
  "init demo_world (Some ''missing.csv'') None =
     Inr (\<lparr>file_path = Some ''missing.csv'', df_attr = None\<rparr>, [Some (OSError ''No such file or directory'')]) \<and>
   get_lines \<lparr>file_path = Some ''missing.csv'', df_attr = None\<rparr> 5 =
     Inl (AttributeError ''_BaseDataHandler__df'')"
proof -
  have h: "read_csv demo_world (Some ''missing.csv'') = Inl (OSError ''No such file or directory'')"
    by (simp add: read_csv_def demo_world_def)
  show ?thesis
    using h init_never_aborts[of demo_world "Some ''missing.csv''" None
             "OSError ''No such file or directory''" 5]
    by simp
qed

section \<open>Filling missing cells\<close>



lemma float64_of_int: "\<bar>m\<bar> < 2 ^ 53 \<Longrightarrow> float64 (real_of_int m)"
  unfolding float64_def by (rule exI[of _ m], rule exI[of _ 0]) simp





section \<open>Clamping\<close>

lemma clip_cell_result:
  "clip_cell l u v = Inr v' \<Longrightarrow> l \<le> u \<Longrightarrow> (\<forall>x. v \<noteq> Obj x) \<Longrightarrow>
     (v = Missing \<and> v' = Missing \<or> in_range l u v') \<and> (in_range l u v \<longrightarrow> v' = v)"
  by (cases v) (auto simp: in_range_def)

lemma clip_rows:
  assumes "clip s lo hi = Inr v"
  shows "columns v = columns s \<and>
         list_all2 (\<lambda>r r'. fst r' = fst r \<and>
                      list_all2 (\<lambda>x y. clip_cell (min lo hi) (max lo hi) x = Inr y) (snd r) (snd r'))
                   (rows s) (rows v)"
proof -
  from assms obtain rs where
    rs: "mapE (\<lambda>r. bindE (mapE (clip_cell (min lo hi) (max lo hi)) (snd r))
                          (\<lambda>vs. Inr (fst r, vs))) (rows s) = Inr rs"
    and v: "v = s\<lparr>rows := rs\<rparr>"
    by (auto simp: clip_def bindE_def split: sum.splits)
  have "list_all2 (\<lambda>r r'. bindE (mapE (clip_cell (min lo hi) (max lo hi)) (snd r))
                             (\<lambda>vs. Inr (fst r, vs)) = Inr r') (rows s) rs"
    using mapE_Inr[OF rs] .
  then have "list_all2 (\<lambda>r r'. fst r' = fst r \<and>
                 list_all2 (\<lambda>x y. clip_cell (min lo hi) (max lo hi) x = Inr y) (snd r) (snd r'))
               (rows s) rs"
    by (rule list_all2_mono) (auto simp: bindE_def split: sum.splits dest: mapE_Inr)
  with v show ?thesis by simp
qed

lemma set_column_frame:
  assumes "c \<in> set (columns d)" and "length vs = length (rows d)"
  shows "columns (set_column d c vs) = columns d"
    and "length (rows (set_column d c vs)) = length (rows d)"
    and "map fst (rows (set_column d c vs)) = map fst (rows d)"
  using assms by (auto simp: set_column_def intro!: nth_equalityI)

lemma set_column_wf:
  assumes "wf_df d" and "c \<in> set (columns d)"
  shows "wf_df (set_column d c vs)"
proof -
  have "length (snd r) = length (columns d)" if "(r, x) \<in> set (zip (rows d) vs)" for r x
    using assms(1) set_zip_leftD[OF that] by (simp add: wf_df_def list_all_iff)
  with assms show ?thesis
    by (auto simp: wf_df_def set_column_def list_all_iff)
qed

lemma set_column_cell:
  assumes wf: "wf_df d" and c: "c \<in> set (columns d)" and len: "length vs = length (rows d)"
    and i: "i < length (rows d)"
  shows "cell_at (set_column d c vs) i k = (if k = c then vs ! i else cell_at d i k)"
proof -
  have row: "snd (rows (set_column d c vs) ! i) =
      map (\<lambda>(k, x). if k = c then vs ! i else x) (zip (columns d) (snd (rows d ! i)))"
    using c len i by (simp add: set_column_def)
  obtain x where x: "map_of (zip (columns d) (snd (rows d ! i))) c = Some x"
    using map_of_zip_Some[OF c wf_row[OF wf i]] by blast
  have "cell_at (set_column d c vs) i k =
      (case map_of (zip (columns d) (snd (rows d ! i))) k of None \<Rightarrow> Missing
       | Some x \<Rightarrow> if k = c then vs ! i else x)"
    unfolding cell_at_def set_column_frame(1)[OF c len] row by (simp add: row_get_map_zip)
  then show ?thesis using x
    by (auto simp: cell_at_def row_get_def split: option.splits)
qed

lemma col_values_nth: "i < length (rows v) \<Longrightarrow> col_values v c ! i = cell_at v i c"
  by (simp add: col_values_def cell_at_def)

lemma assign_columns_cells:
  assumes "assign_columns d (map (\<lambda>c. (c, c)) cs) v = (d', None)"
    and "wf_df d" and "set cs \<subseteq> set (columns d)" and "length (rows v) = length (rows d)"
  shows "columns d' = columns d \<and> map fst (rows d') = map fst (rows d) \<and>
         (\<forall>i < length (rows d). \<forall>k.
            cell_at d' i k = (if k \<in> set cs then cell_at v i k else cell_at d i k))"
  using assms
proof (induction cs arbitrary: d)
  case Nil
  then show ?case by simp
next
  case (Cons c cs)
  let ?d1 = "set_column d c (col_values v c)"
  have c: "c \<in> set (columns d)" using Cons.prems(3) by simp
  have len: "length (col_values v c) = length (rows d)"
    using Cons.prems(4) by (simp add: col_values_def)
  from Cons.prems(1) have a: "assign_columns ?d1 (map (\<lambda>c. (c, c)) cs) v = (d', None)"
    by (simp split: if_splits)
  note f = set_column_frame[OF c len]
  have wf1: "wf_df ?d1" using set_column_wf[OF Cons.prems(2) c] .
  have sub1: "set cs \<subseteq> set (columns ?d1)" using Cons.prems(3) f(1) by simp
  have len1: "length (rows v) = length (rows ?d1)" using Cons.prems(4) f(2) by simp
  from Cons.IH[OF a wf1 sub1 len1]
  have ih: "columns d' = columns ?d1" "map fst (rows d') = map fst (rows ?d1)"
    "\<And>i k. i < length (rows ?d1) \<Longrightarrow>
        cell_at d' i k = (if k \<in> set cs then cell_at v i k else cell_at ?d1 i k)"
    by blast+
  have "cell_at d' i k = (if k \<in> set (c # cs) then cell_at v i k else cell_at d i k)"
    if i: "i < length (rows d)" for i k
  proof -
    have "cell_at ?d1 i k = (if k = c then cell_at v i c else cell_at d i k)"
      using set_column_cell[OF Cons.prems(2) c len i, of k] i Cons.prems(4)
      by (simp add: col_values_nth)
    with ih(3)[of i k] i f(2) show ?thesis by auto
  qed
  with ih(1,2) f(1,3) show ?case by simp
qed

lemma zip_same: "zip cs cs = map (\<lambda>c. (c, c)) cs"
  by (induction cs) auto

lemma setitem_frame_cells:
  assumes ok: "setitem_frame d cols v = (d', None)"
    and wf: "wf_df d" and sub: "set (names_list cols) \<subseteq> set (columns d)"
    and cv: "columns v = names_list cols" and len: "length (rows v) = length (rows d)"
  shows "columns d' = columns d \<and> map fst (rows d') = map fst (rows d) \<and>
         (\<forall>i < length (rows d). \<forall>k.
            cell_at d' i k = (if k \<in> set (names_list cols) then cell_at v i k else cell_at d i k))"
proof (cases cols)
  case (Name c)
  have c: "c \<in> set (columns d)" using sub Name by simp
  have l: "length (col_values v c) = length (rows d)" using len by (simp add: col_values_def)
  have d': "d' = set_column d c (col_values v c)"
    using ok Name by (simp add: setitem_frame_def)
  have "cell_at d' i k = (if k \<in> set (names_list cols) then cell_at v i k else cell_at d i k)"
    if i: "i < length (rows d)" for i k
    using set_column_cell[OF wf c l i, of k] i len Name d' by (simp add: col_values_nth)
  with set_column_frame[OF c l] d' show ?thesis by simp
next
  case (Names cs)
  with ok cv have "assign_columns d (map (\<lambda>c. (c, c)) cs) v = (d', None)"
    by (simp add: setitem_frame_def zip_same split: if_splits)
  from assign_columns_cells[OF this wf _ len] sub Names show ?thesis by simp
qed

lemma clamp_cols_cells:
  assumes ok: "try_clamp_cols self cols lo hi = (self', Inr (True, None))"
    and d: "df_attr self = Some d" and wf: "wf_df d"
    and le: "lo \<le> hi"
    and num: "\<forall>c\<in>set (names_list cols). numeric (col_values d c)"
  shows "\<exists>d'. df_attr self' = Some d' \<and> columns d' = columns d \<and>
           map fst (rows d') = map fst (rows d) \<and>
     (\<forall>i < length (rows d). \<forall>c.
        (c \<in> set (names_list cols) \<longrightarrow>
            (cell_at d i c = Missing \<and> cell_at d' i c = Missing \<or> in_range lo hi (cell_at d' i c)) \<and>
            (in_range lo hi (cell_at d i c) \<longrightarrow> cell_at d' i c = cell_at d i c)) \<and>
        (c \<notin> set (names_list cols) \<longrightarrow> cell_at d' i c = cell_at d i c))"
proof -
  let ?ks = "names_list cols"
  from ok d obtain s v d' where s: "getitem d cols = Inr s" and v: "clip s lo hi = Inr v"
    and set: "setitem_frame d cols v = (d', None)" and d': "df_attr self' = Some d'"
    by (auto simp: try_clamp_cols_def df_def bindE_def split: sum.splits prod.splits option.splits)
  from s have sub: "set ?ks \<subseteq> set (columns d)"
    by (auto simp: getitem_def find_None_iff_all split: option.splits)
  from s have s_def: "s = \<lparr>columns = ?ks,
        rows = map (\<lambda>r. (fst r, map (row_get (columns d) (snd r)) ?ks)) (rows d)\<rparr>"
    by (auto simp: getitem_def split: option.splits)
  from clip_rows[OF v] s_def have cv: "columns v = ?ks"
    and rv: "list_all2 (\<lambda>r r'. fst r' = fst r \<and>
                 list_all2 (\<lambda>x y. clip_cell (min lo hi) (max lo hi) x = Inr y) (snd r) (snd r'))
               (map (\<lambda>r. (fst r, map (row_get (columns d) (snd r)) ?ks)) (rows d)) (rows v)"
    by simp_all
  from rv have len: "length (rows v) = length (rows d)"
    by (auto dest: list_all2_lengthD)
  note fr = setitem_frame_cells[OF set wf sub cv len]
  have cells: "(c \<in> set ?ks \<longrightarrow>
            (cell_at d i c = Missing \<and> cell_at d' i c = Missing \<or> in_range lo hi (cell_at d' i c)) \<and>
            (in_range lo hi (cell_at d i c) \<longrightarrow> cell_at d' i c = cell_at d i c)) \<and>
        (c \<notin> set ?ks \<longrightarrow> cell_at d' i c = cell_at d i c)" if i: "i < length (rows d)" for i c
  proof (cases "c \<in> set ?ks")
    case False
    with fr i show ?thesis by simp
  next
    case True
    let ?r = "rows d ! i" and ?r' = "rows v ! i"
    from rv i have "list_all2 (\<lambda>x y. clip_cell (min lo hi) (max lo hi) x = Inr y)
         (map (row_get (columns d) (snd ?r)) ?ks) (snd ?r')"
      by (auto simp: list_all2_conv_all_nth)
    then have "list_all2 (\<lambda>k y. clip_cell (min lo hi) (max lo hi)
                             (row_get (columns d) (snd ?r) k) = Inr y) ?ks (snd ?r')"
      by (simp add: list_all2_map1)
    then have "\<exists>y. map_of (zip ?ks (snd ?r')) c = Some y \<and>
           clip_cell (min lo hi) (max lo hi) (row_get (columns d) (snd ?r) c) = Inr y"
      using True by (rule map_of_zip_all2)
    then have y: "clip_cell lo hi (cell_at d i c) = Inr (cell_at v i c)"
      using le by (auto simp: row_get_def cv cell_at_def)
    have "cell_at d i c \<in> set (col_values d c)"
      using i by (auto simp: col_values_def cell_at_def)
    with num True have "case cell_at d i c of Num x \<Rightarrow> True | Missing \<Rightarrow> True | _ \<Rightarrow> False"
      by (simp add: numeric_def list_all_iff)
    then have "\<forall>x. cell_at d i c \<noteq> Obj x"
      by (auto split: cell.splits)
    from clip_cell_result[OF y le this] fr i True show ?thesis by simp
  qed
  show ?thesis using d' fr cells by blast
qed

text \<open>
  C8 as the claim states it fails where a clamped column has a missing cell: \<open>clip\<close> leaves
  it missing, so after a successful \<open>try_clamp_cols("b", 0, 200)\<close> on the example the cell of
  the third row under \<open>b\<close> is still missing and does not lie in \<open>[0, 200]\<close>.
\<close>

theorem clamp_missing_counterexample:
  "try_clamp_cols demo_handler (Name ''b'') 0 200 = (demo_handler, Inr (True, None)) \<and>
   cell_at demo_frame 2 ''b'' = Missing \<and> \<not> in_range 0 200 (cell_at demo_frame 2 ''b'')"
  by (simp add: try_clamp_cols_def df_def bindE_def getitem_def clip_def setitem_frame_def
        set_column_def col_values_def row_get_def cell_at_def in_range_def demo_handler_def
        demo_frame_def)

text \<open>
  C8, amended. After a successful \<open>try_clamp_cols(cols, lo, hi)\<close> with \<open>lo \<le> hi\<close> on columns
  of numeric dtype, the columns and the row index are as before; in the columns of \<open>cols\<close>
  every cell that is not missing holds a number of \<open>[lo, hi]\<close> and a missing cell is still
  missing; a cell of these columns whose number was in \<open>[lo, hi]\<close> is unchanged; every cell
  of the other columns is unchanged. pandas compares in float64: this is stated for bounds
  that float64 holds, of absolute value at most \<open>2^53\<close>, and for columns whose numbers
  float64 holds, where the comparison is exact.
\<close>

theorem clamp_cols_result:
  assumes "try_clamp_cols self cols lo hi = (self', Inr (True, None))"
    and "df_attr self = Some d" and "wf_df d"
    and "lo \<le> hi"
    and "\<forall>c\<in>set (names_list cols). numeric (col_values d c)"
    and "float64 lo \<and> \<bar>lo\<bar> \<le> 2 ^ 53" and "float64 hi \<and> \<bar>hi\<bar> \<le> 2 ^ 53"
    and "\<forall>c\<in>set (names_list cols). \<forall>x\<in>set (numbers (col_values d c)). float64 x"
  shows "\<exists>d'. df_attr self' = Some d' \<and> columns d' = columns d \<and>
           map fst (rows d') = map fst (rows d) \<and>
     (\<forall>i < length (rows d). \<forall>c.
        (c \<in> set (names_list cols) \<longrightarrow>
            (cell_at d i c = Missing \<and> cell_at d' i c = Missing \<or> in_range lo hi (cell_at d' i c)) \<and>
            (in_range lo hi (cell_at d i c) \<longrightarrow> cell_at d' i c = cell_at d i c)) \<and>
        (c \<notin> set (names_list cols) \<longrightarrow> cell_at d' i c = cell_at d i c))"
  using clamp_cols_cells[OF assms(1-5)] .

theorem clamp_cols_result_witness:
  "try_clamp_cols \<lparr>file_path = None, df_attr = Some demo_fill_frame\<rparr> (Names [''x'', ''y'']) 2 5 =
     (\<lparr>file_path = None, df_attr = Some \<lparr>columns = [''name'', ''x'', ''y'', ''z''],
         rows = [(Num 0, [Str ''kia'', Num 4, Num 5, Obj 7]),
                 (Num 1, [Missing, Missing, Missing, Missing]),
                 (Num 2, [Str ''bmw'', Num 2, Num 4, Obj 1])]\<rparr>\<rparr>,
      Inr (True, None)) \<and>
   (\<exists>d'. df_attr \<lparr>file_path = None, df_attr = Some \<lparr>columns = [''name'', ''x'', ''y'', ''z''],
         rows = [(Num 0, [Str ''kia'', Num 4, Num 5, Obj 7]),
                 (Num 1, [Missing, Missing, Missing, Missing]),
                 (Num 2, [Str ''bmw'', Num 2, Num 4, Obj 1])]\<rparr>\<rparr> = Some d' \<and>
      columns d' = columns demo_fill_frame \<and>
      in_range 2 5 (cell_at d' 2 ''x'') \<and> cell_at d' 0 ''x'' = cell_at demo_fill_frame 0 ''x'' \<and>
      cell_at d' 0 ''z'' = cell_at demo_fill_frame 0 ''z'')"
proof -
  let ?h = "\<lparr>file_path = None, df_attr = Some demo_fill_frame\<rparr>"
  let ?d' = "\<lparr>columns = [''name'', ''x'', ''y'', ''z''],
         rows = [(Num 0, [Str ''kia'', Num 4, Num 5, Obj 7]),
                 (Num 1, [Missing, Missing, Missing, Missing]),
                 (Num 2, [Str ''bmw'', Num 2, Num 4, Obj 1])]\<rparr>"
  let ?h' = "\<lparr>file_path = None, df_attr = Some ?d'\<rparr>"
  have h1: "try_clamp_cols ?h (Names [''x'', ''y'']) 2 5 = (?h', Inr (True, None))"
    by (simp add: try_clamp_cols_def df_def bindE_def getitem_def clip_def setitem_frame_def
          set_column_def col_values_def row_get_def demo_fill_frame_def)
  have h2: "df_attr ?h = Some demo_fill_frame" by simp
  have h3: "wf_df demo_fill_frame" by (simp add: wf_df_def demo_fill_frame_def)
  have h4: "(2::real) \<le> 5" by simp
  have cols: "numeric (col_values demo_fill_frame ''x'')" "numeric (col_values demo_fill_frame ''y'')"
    "numbers (col_values demo_fill_frame ''x'') = [4, 1]"
    "numbers (col_values demo_fill_frame ''y'') = [10, 4]"
    by (simp_all add: numeric_def numbers_def col_values_def row_get_def demo_fill_frame_def)
  have fl: "float64 (real_of_int 1)" "float64 (real_of_int 2)" "float64 (real_of_int 4)"
    "float64 (real_of_int 5)" "float64 (real_of_int 10)"
    by (rule float64_of_int, simp)+
  have h5: "\<forall>c\<in>set (names_list (Names [''x'', ''y''])). numeric (col_values demo_fill_frame c)"
    using cols by simp
  have h6: "float64 2 \<and> \<bar>2::real\<bar> \<le> 2 ^ 53" and h7: "float64 5 \<and> \<bar>5::real\<bar> \<le> 2 ^ 53"
    using fl by simp_all
  have h8: "\<forall>c\<in>set (names_list (Names [''x'', ''y''])).
              \<forall>x\<in>set (numbers (col_values demo_fill_frame c)). float64 x"
    using cols fl by simp
  from clamp_cols_result[OF h1 h2 h3 h4 h5 h6 h7 h8]
  obtain d' where d': "df_attr ?h' = Some d'" "columns d' = columns demo_fill_frame"
    "\<forall>i < length (rows demo_fill_frame). \<forall>c.
        (c \<in> set (names_list (Names [''x'', ''y''])) \<longrightarrow>
            (cell_at demo_fill_frame i c = Missing \<and> cell_at d' i c = Missing \<or>
             in_range 2 5 (cell_at d' i c)) \<and>
            (in_range 2 5 (cell_at demo_fill_frame i c) \<longrightarrow>
             cell_at d' i c = cell_at demo_fill_frame i c)) \<and>
        (c \<notin> set (names_list (Names [''x'', ''y''])) \<longrightarrow>
           cell_at d' i c = cell_at demo_fill_frame i c)"
    by blast
  have len: "length (rows demo_fill_frame) = 3" by (simp add: demo_fill_frame_def)
  have c0: "cell_at demo_fill_frame 2 ''x'' = Num 1" "cell_at demo_fill_frame 0 ''x'' = Num 4"
    by (simp_all add: cell_at_def row_get_def demo_fill_frame_def)
  have "in_range 2 5 (cell_at d' 2 ''x'')"
    using d'(3)[rule_format, of 2 "''x''"] c0 by (simp add: len)
  moreover have "cell_at d' 0 ''x'' = cell_at demo_fill_frame 0 ''x''"
    using d'(3)[rule_format, of 0 "''x''"] c0 by (simp add: len in_range_def)
  moreover have "cell_at d' 0 ''z'' = cell_at demo_fill_frame 0 ''z''"
    using d'(3)[rule_format, of 0 "''z''"] by (simp add: len)
  ultimately show ?thesis using h1 d'(1,2) by blast
qed

section \<open>Dropping missing data\<close>

lemma drop_nan_frames:
  assumes ok: "try_drop_nan self cols = (self', Inr (True, None))"
    and d: "df_attr self = Some d"
    and wf: "wf_df d"
  shows "\<exists>d1 d'. dropna_rows d cols = Inr d1 \<and> df_attr self' = Some d' \<and>
      columns d1 = columns d \<and>
      rows d1 = filter (\<lambda>r. \<forall>c\<in>set (names_list cols). row_get (columns d) (snd r) c \<noteq> Missing) (rows d) \<and>
      map fst (rows d') = map fst (rows d1) \<and>
      (\<forall>r\<in>set (rows d'). \<forall>c\<in>set (names_list cols). row_get (columns d') (snd r) c \<noteq> Missing) \<and>
      (\<forall>c. (\<forall>r\<in>set (rows d). row_get (columns d) (snd r) c = Missing) \<longrightarrow> c \<notin> set (columns d')) \<and>
      (\<forall>c. c \<in> set (columns d') \<longleftrightarrow>
           c \<in> set (columns d) \<and> (\<exists>r\<in>set (rows d1). row_get (columns d) (snd r) c \<noteq> Missing)) \<and>
      (\<forall>c\<in>set (columns d). (\<exists>r\<in>set (rows d1). row_get (columns d) (snd r) c \<noteq> Missing) \<longrightarrow>
           c \<in> set (columns d') \<and> col_values d' c = col_values d1 c)"
proof -
  let ?ks = "names_list cols"
  from ok d obtain d1 where d1: "dropna_rows d cols = Inr d1"
    and d': "df_attr self' = Some (dropna_all_columns d1)"
    by (auto simp: try_drop_nan_def df_def bindE_def Let_def split: sum.splits)
  let ?d' = "dropna_all_columns d1"
  from d1 have c1: "columns d1 = columns d"
    and r1: "rows d1 = filter (\<lambda>r. \<forall>c\<in>set ?ks. row_get (columns d) (snd r) c \<noteq> Missing) (rows d)"
    by (auto simp: dropna_rows_def list_all_iff split: option.splits)
  have len1: "length (snd r) = length (columns d1)" if "r \<in> set (rows d1)" for r
    using that wf_row_mem[OF wf] by (simp add: c1 r1)
  have idx: "map fst (rows ?d') = map fst (rows d1)"
    by (simp add: dropna_all_columns_def comp_def)
  have get': "row_get (columns ?d') (snd r') c =
                (if has_value d1 c then row_get (columns d1) (snd r) c else Missing)"
    if "r \<in> set (rows d1)"
       "r' = (fst r, map snd (filter (\<lambda>(c, v). has_value d1 c) (zip (columns d1) (snd r))))"
    for r r' c
    using len1[OF that(1)] that(2) by (simp add: dropna_all_columns_def row_get_filter_keys)
  have a: "row_get (columns ?d') (snd r') c \<noteq> Missing"
    if "r' \<in> set (rows ?d')" "c \<in> set ?ks" for r' c
  proof -
    from that(1) obtain r where r: "r \<in> set (rows d1)"
      and r': "r' = (fst r, map snd (filter (\<lambda>(c, v). has_value d1 c) (zip (columns d1) (snd r))))"
      by (auto simp: dropna_all_columns_def)
    from r that(2) have nm: "row_get (columns d1) (snd r) c \<noteq> Missing" by (simp add: r1 c1)
    with r have "has_value d1 c" by (auto simp: has_value_iff)
    with get'[OF r r'] nm show ?thesis by simp
  qed
  have b: "c \<notin> set (columns ?d')"
    if "\<forall>r\<in>set (rows d). row_get (columns d) (snd r) c = Missing" for c
  proof -
    from that have "\<not> has_value d1 c" by (auto simp: has_value_iff r1 c1)
    then show ?thesis by (simp add: dropna_all_columns_def)
  qed
  have c: "c \<in> set (columns ?d') \<and> col_values ?d' c = col_values d1 c"
    if "c \<in> set (columns d)" "\<exists>r\<in>set (rows d1). row_get (columns d) (snd r) c \<noteq> Missing" for c
  proof -
    from that(2) have hv: "has_value d1 c" by (auto simp: has_value_iff c1)
    with that(1) have "c \<in> set (columns ?d')" by (simp add: dropna_all_columns_def c1)
    moreover have "col_values ?d' c = col_values d1 c"
      unfolding col_values_def
    proof (rule nth_equalityI)
      show "length (map (\<lambda>r. row_get (columns ?d') (snd r) c) (rows ?d')) =
            length (map (\<lambda>r. row_get (columns d1) (snd r) c) (rows d1))"
        by (simp add: dropna_all_columns_def)
    next
      fix i assume "i < length (map (\<lambda>r. row_get (columns ?d') (snd r) c) (rows ?d'))"
      then have i: "i < length (rows d1)" by (simp add: dropna_all_columns_def)
      then have "rows d1 ! i \<in> set (rows d1)" by simp
      moreover have "rows ?d' ! i = (fst (rows d1 ! i),
          map snd (filter (\<lambda>(c, v). has_value d1 c) (zip (columns d1) (snd (rows d1 ! i)))))"
        using i by (simp add: dropna_all_columns_def)
      ultimately have "row_get (columns ?d') (snd (rows ?d' ! i)) c =
                       row_get (columns d1) (snd (rows d1 ! i)) c"
        using get' hv by simp
      then show "map (\<lambda>r. row_get (columns ?d') (snd r) c) (rows ?d') ! i =
                 map (\<lambda>r. row_get (columns d1) (snd r) c) (rows d1) ! i"
        using i by (simp add: dropna_all_columns_def)
    qed
    ultimately show ?thesis by simp
  qed
  have e: "c \<in> set (columns ?d') \<longleftrightarrow>
           c \<in> set (columns d) \<and> (\<exists>r\<in>set (rows d1). row_get (columns d) (snd r) c \<noteq> Missing)" for c
    by (auto simp: dropna_all_columns_def has_value_iff c1)
  show ?thesis using d1 d' c1 r1 idx a b c e by blast
qed

lemma drop_nan_scenario:
  "try_drop_nan \<lparr>file_path = None, df_attr = Some demo_frame\<rparr> (Names [''b'']) =
     (\<lparr>file_path = None, df_attr = Some \<lparr>columns = [''a'', ''b''],
         rows = [(Num 0, [Num 1, Num 2]), (Num 1, [Num 1, Num 2])]\<rparr>\<rparr>, Inr (True, None))"
  by (simp add: try_drop_nan_def df_def bindE_def dropna_rows_def dropna_all_columns_def
        demo_frame_def row_get_def has_value_def col_values_def Let_def)

text \<open>
  C7 as the claim states it fails for a column that has a value, but only in rows that the
  first phase drops: the second phase judges a column on the rows that remain. In the table
  with the rows (a=1, b=missing), (a=missing, b=2) the column \<open>b\<close> is not entirely missing,
  and \<open>try_drop_nan(["a"])\<close> succeeds and drops it.
\<close>

theorem drop_nan_emptied_column_counterexample:
  "try_drop_nan \<lparr>file_path = None, df_attr = Some demo_cross_frame\<rparr> (Names [''a'']) =
     (\<lparr>file_path = None, df_attr = Some \<lparr>columns = [''a''],
         rows = [(Num 0, [Num 1])]\<rparr>\<rparr>, Inr (True, None)) \<and>
   cell_at demo_cross_frame 1 ''b'' = Num 2"
  by (simp add: try_drop_nan_def df_def bindE_def dropna_rows_def dropna_all_columns_def
        row_get_def has_value_def col_values_def cell_at_def Let_def demo_cross_frame_def)

text \<open>
  C7, amended. After a successful \<open>try_drop_nan(cols)\<close> on a (well-formed) table \<open>d\<close>, with
  \<open>d1\<close> the table of the rows of \<open>d\<close> that have no missing cell under \<open>cols\<close> and \<open>d'\<close> the
  table the handler holds: the rows of \<open>d'\<close> are those of \<open>d1\<close> (same index labels, same
  order); no row of \<open>d'\<close> has a missing cell under a column of \<open>cols\<close>; a column that was
  entirely missing in \<open>d\<close> is not a column of \<open>d'\<close>; the columns of \<open>d'\<close> are exactly the
  columns of \<open>d\<close> that have a value in one of the remaining rows, so a column whose values
  were all in dropped rows is dropped too; a column that is kept has all its remaining
  cells, missing ones included. On the table of the scenario, \<open>try_drop_nan(["b"])\<close> gives
  the rows (a=1, b=2), (a=1, b=2) with both columns.
\<close>

theorem drop_nan_result:
  assumes "try_drop_nan self cols = (self', Inr (True, None))"
    and "df_attr self = Some d"
    and "wf_df d"
  shows "(\<exists>d1 d'. dropna_rows d cols = Inr d1 \<and> df_attr self' = Some d' \<and>
      columns d1 = columns d \<and>
      rows d1 = filter (\<lambda>r. \<forall>c\<in>set (names_list cols). row_get (columns d) (snd r) c \<noteq> Missing) (rows d) \<and>
      map fst (rows d') = map fst (rows d1) \<and>
      (\<forall>r\<in>set (rows d'). \<forall>c\<in>set (names_list cols). row_get (columns d') (snd r) c \<noteq> Missing) \<and>
      (\<forall>c. (\<forall>r\<in>set (rows d). row_get (columns d) (snd r) c = Missing) \<longrightarrow> c \<notin> set (columns d')) \<and>
      (\<forall>c. c \<in> set (columns d') \<longleftrightarrow>
           c \<in> set (columns d) \<and> (\<exists>r\<in>set (rows d1). row_get (columns d) (snd r) c \<noteq> Missing)) \<and>
      (\<forall>c\<in>set (columns d). (\<exists>r\<in>set (rows d1). row_get (columns d) (snd r) c \<noteq> Missing) \<longrightarrow>
           c \<in> set (columns d') \<and> col_values d' c = col_values d1 c)) \<and>
    try_drop_nan \<lparr>file_path = None, df_attr = Some demo_frame\<rparr> (Names [''b'']) =
     (\<lparr>file_path = None, df_attr = Some \<lparr>columns = [''a'', ''b''],
         rows = [(Num 0, [Num 1, Num 2]), (Num 1, [Num 1, Num 2])]\<rparr>\<rparr>, Inr (True, None))"
  using drop_nan_frames[OF assms] drop_nan_scenario by simp

theorem drop_nan_result_witness:
  "try_drop_nan \<lparr>file_path = None, df_attr = Some demo_drop_frame\<rparr> (Names [''a'']) =
     (\<lparr>file_path = None, df_attr = Some \<lparr>columns = [''a'', ''b''],
         rows = [(Num 0, [Num 1, Num 5]), (Num 2, [Num 3, Missing])]\<rparr>\<rparr>, Inr (True, None)) \<and>
   wf_df demo_drop_frame \<and>
   (\<exists>d'. df_attr \<lparr>file_path = None, df_attr = Some \<lparr>columns = [''a'', ''b''],
         rows = [(Num 0, [Num 1, Num 5]), (Num 2, [Num 3, Missing])]\<rparr>\<rparr> = Some d' \<and>
      ''a'' \<in> set (columns d') \<and> ''b'' \<in> set (columns d') \<and>
      ''c'' \<notin> set (columns d') \<and> ''e'' \<notin> set (columns d') \<and>
      (\<forall>r\<in>set (rows d'). \<forall>c\<in>set (names_list (Names [''a''])). row_get (columns d') (snd r) c \<noteq> Missing))"
proof -
  let ?h = "\<lparr>file_path = None, df_attr = Some demo_drop_frame\<rparr>"
  have h1: "try_drop_nan ?h (Names [''a'']) =
     (\<lparr>file_path = None, df_attr = Some \<lparr>columns = [''a'', ''b''],
         rows = [(Num 0, [Num 1, Num 5]), (Num 2, [Num 3, Missing])]\<rparr>\<rparr>, Inr (True, None))"
    by (simp add: try_drop_nan_def df_def bindE_def dropna_rows_def dropna_all_columns_def
        demo_drop_frame_def row_get_def has_value_def col_values_def Let_def)
  have h2: "df_attr ?h = Some demo_drop_frame" by simp
  have h3: "wf_df demo_drop_frame" by (simp add: wf_df_def demo_drop_frame_def)
  from drop_nan_result[OF h1 h2 h3]
  obtain d1 d' where r: "dropna_rows demo_drop_frame (Names [''a'']) = Inr d1"
    "df_attr \<lparr>file_path = None, df_attr = Some \<lparr>columns = [''a'', ''b''],
         rows = [(Num 0, [Num 1, Num 5]), (Num 2, [Num 3, Missing])]\<rparr>\<rparr> = Some d'"
    "\<forall>r\<in>set (rows d'). \<forall>c\<in>set (names_list (Names [''a''])). row_get (columns d') (snd r) c \<noteq> Missing"
    "\<forall>c. c \<in> set (columns d') \<longleftrightarrow>
           c \<in> set (columns demo_drop_frame) \<and>
           (\<exists>r\<in>set (rows d1). row_get (columns demo_drop_frame) (snd r) c \<noteq> Missing)"
    by blast
  from r(1) have d1: "rows d1 = [(Num 0, [Num 1, Num 5, Missing, Missing]),
                                 (Num 2, [Num 3, Missing, Missing, Missing])]"
    by (auto simp: dropna_rows_def demo_drop_frame_def row_get_def)
  have "''a'' \<in> set (columns d')" "''b'' \<in> set (columns d')"
       "''c'' \<notin> set (columns d')" "''e'' \<notin> set (columns d')"
    using r(4) by (simp_all add: d1 demo_drop_frame_def row_get_def)
  with r(2,3) h1 h3 show ?thesis by blast
qed

section \<open>Sorting\<close>

lemma cell_le_total: "cell_le f a b \<or> cell_le f b a"
  by (cases a; cases b) auto

lemma cell_le_trans: "cell_le f a b \<Longrightarrow> cell_le f b c \<Longrightarrow> cell_le f a c"
  by (cases a; cases b; cases c) (auto split: if_splits)

lemma key_le_total: "key_le fs xs ys \<or> key_le fs ys xs"
  using cell_le_total by (induction fs xs ys rule: key_le.induct) auto

lemma key_le_Cons:
  "key_le (f # fs) (a # as) (b # bs) =
     (if cell_le f a b \<and> cell_le f b a then key_le fs as bs else cell_le f a b)"
  by simp

lemma key_le_trans:
  "length xs = length ys \<Longrightarrow> length ys = length zs \<Longrightarrow>
     key_le fs xs ys \<Longrightarrow> key_le fs ys zs \<Longrightarrow> key_le fs xs zs"
proof (induction fs xs ys arbitrary: zs rule: key_le.induct)
  case (1 f fs a as b bs)
  from "1.prems"(2) obtain c cs where zs: "zs = c # cs" by (cases zs) auto
  have len: "length as = length bs" "length bs = length cs"
    using "1.prems"(1,2) zs by simp_all
  have xy: "if cell_le f a b \<and> cell_le f b a then key_le fs as bs else cell_le f a b"
    using "1.prems"(3) by (simp only: key_le_Cons)
  have yz: "if cell_le f b c \<and> cell_le f c b then key_le fs bs cs else cell_le f b c"
    using "1.prems"(4) unfolding zs by (simp only: key_le_Cons)
  have tr: "\<And>x y z. cell_le f x y \<Longrightarrow> cell_le f y z \<Longrightarrow> cell_le f x z"
    by (rule cell_le_trans)
  have goal: "key_le (f # fs) (a # as) (c # cs) =
     (if cell_le f a c \<and> cell_le f c a then key_le fs as cs else cell_le f a c)"
    by (rule key_le_Cons)
  show ?case
  proof (cases "cell_le f a b \<and> cell_le f b a")
    case ab: True
    then have k1: "key_le fs as bs" using xy by (simp only: if_True)
    show ?thesis
    proof (cases "cell_le f b c \<and> cell_le f c b")
      case bc: True
      then have k2: "key_le fs bs cs" using yz by (simp only: if_True)
      have ac: "cell_le f a c \<and> cell_le f c a" using ab bc tr by blast
      have "key_le fs as cs" using "1.IH"[OF ab len k1 k2] .
      then show ?thesis unfolding zs goal using ac by simp
    next
      case bc: False
      then have le_bc: "cell_le f b c" using yz by (simp only: if_False)
      have ac: "cell_le f a c" using ab le_bc tr by blast
      have "\<not> cell_le f c a" using ab bc le_bc tr by blast
      then have "\<not> (cell_le f a c \<and> cell_le f c a)" by blast
      then show ?thesis unfolding zs goal using ac by simp
    qed
  next
    case ab: False
    then have le_ab: "cell_le f a b" using xy by (simp only: if_False)
    show ?thesis
    proof (cases "cell_le f b c \<and> cell_le f c b")
      case bc: True
      have ac: "cell_le f a c" using le_ab bc tr by blast
      have "\<not> cell_le f c a" using ab le_ab bc tr by blast
      then have "\<not> (cell_le f a c \<and> cell_le f c a)" by blast
      then show ?thesis unfolding zs goal using ac by simp
    next
      case bc: False
      then have le_bc: "cell_le f b c" using yz by (simp only: if_False)
      have ac: "cell_le f a c" using le_ab le_bc tr by blast
      have "\<not> cell_le f c a" using ab le_ab le_bc bc tr by blast
      then have "\<not> (cell_le f a c \<and> cell_le f c a)" by blast
      then show ?thesis unfolding zs goal using ac by simp
    qed
  qed
qed simp_all

lemma row_le_trans:
  "row_le cs ks fs x y \<Longrightarrow> row_le cs ks fs y z \<Longrightarrow> row_le cs ks fs x z"
  unfolding row_le_def
  by (rule key_le_trans[of "row_key cs ks x" "row_key cs ks y" "row_key cs ks z" fs])
     (simp_all add: row_key_def)

lemma row_le_total: "row_le cs ks fs x y \<or> row_le cs ks fs y x"
  unfolding row_le_def by (rule key_le_total)

lemma set_insort_by: "set (insort_by le x xs) = insert x (set xs)"
  by (induction xs) auto

lemma mset_insort_by: "mset (insort_by le x xs) = add_mset x (mset xs)"
  by (induction xs) auto

lemma mset_sort_by: "mset (sort_by le xs) = mset xs"
  by (induction xs) (auto simp: sort_by_def mset_insort_by)

lemma length_insort_by: "length (insort_by le x xs) = Suc (length xs)"
  by (induction xs) auto

lemma length_sort_by: "length (sort_by le xs) = length xs"
  by (induction xs) (auto simp: sort_by_def length_insort_by)

lemma sorted_insort_by:
  assumes tot: "\<And>x y. le x y \<or> le y x"
    and tr: "\<And>x y z. le x y \<Longrightarrow> le y z \<Longrightarrow> le x z"
  shows "sorted_wrt le xs \<Longrightarrow> sorted_wrt le (insort_by le x xs)"
proof (induction xs)
  case Nil
  show ?case by simp
next
  case (Cons y ys)
  from Cons.prems have y_le: "\<forall>z\<in>set ys. le y z" and ys: "sorted_wrt le ys"
    by simp_all
  show ?case
  proof (cases "le x y")
    case True
    have "\<forall>z\<in>set ys. le x z" using y_le tr[OF True] by blast
    then have "sorted_wrt le (x # y # ys)" using True y_le ys by simp
    then show ?thesis using True by simp
  next
    case False
    then have yx: "le y x" using tot[of x y] by blast
    have "sorted_wrt le (insort_by le x ys)" using Cons.IH ys by blast
    moreover have "\<forall>z\<in>set (insort_by le x ys). le y z"
      using yx y_le by (simp add: set_insort_by)
    ultimately have "sorted_wrt le (y # insort_by le x ys)" by simp
    then show ?thesis using False by simp
  qed
qed

lemma sorted_sort_by:
  assumes tot: "\<And>x y. le x y \<or> le y x"
    and tr: "\<And>x y z. le x y \<Longrightarrow> le y z \<Longrightarrow> le x z"
  shows "sorted_wrt le (sort_by le xs)"
proof (induction xs)
  case Nil
  show ?case by (simp add: sort_by_def)
next
  case (Cons x xs)
  have "sorted_wrt le (insort_by le x (sort_by le xs))"
    using tot tr Cons.IH by (rule sorted_insort_by)
  then show ?case by (simp add: sort_by_def)
qed

lemma sorted_rows: "sorted_wrt (row_le cs ks fs) (sort_by (row_le cs ks fs) rs)"
  by (rule sorted_sort_by) (rule row_le_total, rule row_le_trans)

lemma length_range_index: "length (range_index n) = n"
  by (simp add: range_index_def)

lemma row_get_Cons: "c \<noteq> n \<Longrightarrow> row_get (n # cs) (v # vs) c = row_get cs vs c"
  by (simp add: row_get_def)

lemma row_key_Cons:
  "n \<notin> set ks \<Longrightarrow> row_key (n # cs) ks (l', l # vs) = row_key cs ks (l, vs)"
proof -
  assume n: "n \<notin> set ks"
  have "row_get (n # cs) (l # vs) c = row_get cs vs c" if "c \<in> set ks" for c
    using that n by (intro row_get_Cons) blast
  then show ?thesis by (simp add: row_key_def)
qed

lemma sort_values_Inr:
  assumes "sort_values d cols asc = Inr s"
  shows "\<exists>fs. flags_list asc (length (names_list cols)) = Inr fs \<and>
           set (names_list cols) \<subseteq> set (columns d) \<and>
           s = d\<lparr>rows := sort_by (row_le (columns d) (names_list cols) fs) (rows d)\<rparr>"
  using assms
  by (auto simp: sort_values_def bindE_def find_None_iff_all split: sum.splits option.splits if_splits)

lemma reset_index_Inr:
  assumes "reset_index s = Inr d'"
  shows "reset_index_name s \<notin> set (columns s) \<and>
         d' = \<lparr>columns = reset_index_name s # columns s,
               rows = zip (range_index (length (rows s))) (map (\<lambda>r. fst r # snd r) (rows s))\<rparr>"
  using assms by (auto simp: reset_index_def split: if_splits)

lemma order_by_frames:
  assumes ok: "try_order_by self cols asc = (self', Inr (True, None))"
    and d: "df_attr self = Some d"
  shows "\<exists>d' fs. df_attr self' = Some d' \<and>
           flags_list asc (length (names_list cols)) = Inr fs \<and>
           reset_index_name d \<notin> set (columns d) \<and>
           columns d' = reset_index_name d # columns d \<and>
           length (rows d') = length (rows d) \<and>
           map fst (rows d') = range_index (length (rows d)) \<and>
           mset (map (\<lambda>r. (hd (snd r), tl (snd r))) (rows d')) = mset (rows d) \<and>
           sorted_wrt (row_le (columns d') (names_list cols) fs) (rows d')"
proof -
  let ?ks = "names_list cols"
  from ok d obtain s d' where s: "sort_values d cols asc = Inr s"
    and r: "reset_index s = Inr d'" and d': "df_attr self' = Some d'"
    by (auto simp: try_order_by_def df_def bindE_def split: sum.splits)
  from sort_values_Inr[OF s] obtain fs where
    fs: "flags_list asc (length ?ks) = Inr fs" and sub: "set ?ks \<subseteq> set (columns d)"
    and s_def: "s = d\<lparr>rows := sort_by (row_le (columns d) ?ks fs) (rows d)\<rparr>"
    by blast
  let ?n = "reset_index_name d"
  let ?rs = "sort_by (row_le (columns d) ?ks fs) (rows d)"
  have cs: "columns s = columns d" and rs: "rows s = ?rs" by (simp_all add: s_def)
  have name: "reset_index_name s = ?n" by (simp add: reset_index_name_def cs)
  from reset_index_Inr[OF r] have fresh: "?n \<notin> set (columns d)"
    and d'_def: "d' = \<lparr>columns = ?n # columns d,
                        rows = zip (range_index (length ?rs)) (map (\<lambda>r. fst r # snd r) ?rs)\<rparr>"
    by (simp_all add: name cs rs)
  have len: "length ?rs = length (rows d)" by (rule length_sort_by)
  note lr = length_range_index
  have rows': "rows d' = zip (range_index (length ?rs)) (map (\<lambda>r. fst r # snd r) ?rs)"
    and cols': "columns d' = ?n # columns d"
    by (simp_all add: d'_def)
  have l': "length (rows d') = length (rows d)" by (simp add: rows' lr len)
  have nth': "rows d' ! i = (range_index (length ?rs) ! i, fst (?rs ! i) # snd (?rs ! i))"
    if "i < length (rows d)" for i
    using that by (simp add: rows' lr len)
  have idx: "map fst (rows d') = range_index (length (rows d))"
    by (simp add: rows' lr len)
  have orig: "map (\<lambda>r. (hd (snd r), tl (snd r))) (rows d') = ?rs"
    by (rule nth_equalityI) (simp_all add: l' len nth')
  have ms: "mset (map (\<lambda>r. (hd (snd r), tl (snd r))) (rows d')) = mset (rows d)"
    by (simp add: orig mset_sort_by)
  have nk: "?n \<notin> set ?ks" using fresh sub by blast
  have srt: "sorted_wrt (row_le (columns d) ?ks fs) ?rs" by (rule sorted_rows)
  have "sorted_wrt (row_le (columns d') ?ks fs) (rows d')"
    unfolding sorted_wrt_iff_nth_less
  proof (intro allI impI)
    fix i j assume ij: "i < j" and j: "j < length (rows d')"
    then have i': "i < length (rows d)" and j': "j < length (rows d)" by (simp_all add: l')
    from srt ij j' have "row_le (columns d) ?ks fs (?rs ! i) (?rs ! j)"
      by (simp add: sorted_wrt_iff_nth_less len)
    then show "row_le (columns d') ?ks fs (rows d' ! i) (rows d' ! j)"
      using nk by (simp add: row_le_def nth'[OF i'] nth'[OF j'] cols' row_key_Cons)
  qed
  with d' fs fresh cols' l' idx ms show ?thesis by blast
qed

lemma range_index_3: "range_index (Suc (Suc (Suc 0))) = [Num 0, Num 1, Num 2]"
  by (simp add: range_index_def upt_rec)

lemma demo_order_once:
  "try_order_by \<lparr>file_path = None, df_attr = Some demo_text_frame\<rparr> (Name ''x'') (Flag True) =
     (\<lparr>file_path = None, df_attr = Some demo_sorted_once\<rparr>, Inr (True, None))"
  by (simp add: try_order_by_def df_def bindE_def sort_values_def flags_list_def reset_index_def
        reset_index_name_def sort_by_def row_le_def row_key_def row_get_def mixed_def
        col_values_def is_num_def is_str_def range_index_3
        demo_text_frame_def demo_sorted_once_def)

lemma demo_order_twice:
  "try_order_by \<lparr>file_path = None, df_attr = Some demo_sorted_once\<rparr> (Name ''x'') (Flag True) =
     (\<lparr>file_path = None, df_attr = Some demo_sorted_twice\<rparr>, Inr (True, None))"
  by (simp add: try_order_by_def df_def bindE_def sort_values_def flags_list_def reset_index_def
        reset_index_name_def sort_by_def row_le_def row_key_def row_get_def mixed_def
        col_values_def is_num_def is_str_def range_index_3
        demo_sorted_twice_def demo_sorted_once_def)

lemma order_by_again:
  assumes ok: "try_order_by self' cols asc = (self'', Inr (True, None))"
    and d': "df_attr self' = Some d'"
  shows "\<exists>d'' m. df_attr self'' = Some d'' \<and> m \<notin> set (columns d') \<and>
           columns d'' = m # columns d' \<and> length (rows d'') = length (rows d') \<and> d'' \<noteq> d'"
proof -
  from order_by_frames[OF ok d'] obtain d'' where
    d'': "df_attr self'' = Some d''" "reset_index_name d' \<notin> set (columns d')"
      "columns d'' = reset_index_name d' # columns d'" "length (rows d'') = length (rows d')"
    by blast
  from d''(3) have "d'' \<noteq> d'" by auto
  with d'' show ?thesis by blast
qed

text \<open>
  C4 as the claim states it fails: the second call is not idempotent. On the second example,
  \<open>try_order_by("x", True)\<close> succeeds and gives a table with the columns
  \<open>index, name, x\<close>; the same call again succeeds and gives a table with the columns
  \<open>level_0, index, name, x\<close>, which is not the table after the first call.
\<close>

theorem order_by_twice_counterexample:
  "try_order_by \<lparr>file_path = None, df_attr = Some demo_text_frame\<rparr> (Name ''x'') (Flag True) =
     (\<lparr>file_path = None, df_attr = Some demo_sorted_once\<rparr>, Inr (True, None)) \<and>
   try_order_by \<lparr>file_path = None, df_attr = Some demo_sorted_once\<rparr> (Name ''x'') (Flag True) =
     (\<lparr>file_path = None, df_attr = Some demo_sorted_twice\<rparr>, Inr (True, None)) \<and>
   columns demo_sorted_twice = ''level_0'' # columns demo_sorted_once \<and>
   demo_sorted_twice \<noteq> demo_sorted_once"
  using demo_order_once demo_order_twice
  by (simp add: demo_sorted_once_def demo_sorted_twice_def)

text \<open>
  C4, amended. When \<open>try_order_by(cols, asc)\<close> succeeds on a table \<open>d\<close>, the table \<open>d'\<close> the
  handler then holds has the columns of \<open>d\<close> preceded by one new column, under a label
  that \<open>d\<close> does not have, which holds the former index label of each row; its rows are the
  rows of \<open>d\<close> in another order, so the row count is that of \<open>d\<close>; the new index is
  0 .. N-1; and the rows are sorted by \<open>cols\<close> in the directions of \<open>asc\<close> (the first key
  on which two rows differ decides, missing cells last). A second identical call is not
  idempotent: whenever it succeeds, the table gets one more leading column, with the same
  number of rows, and so differs from \<open>d'\<close>.
\<close>

theorem order_by_sorted_and_counted:
  assumes "try_order_by self cols asc = (self', Inr (True, None))"
    and "df_attr self = Some d"
  shows "\<exists>d' fs n. df_attr self' = Some d' \<and>
           flags_list asc (length (names_list cols)) = Inr fs \<and>
           n \<notin> set (columns d) \<and>
           columns d' = n # columns d \<and>
           length (rows d') = length (rows d) \<and>
           map fst (rows d') = range_index (length (rows d)) \<and>
           mset (map (\<lambda>r. (hd (snd r), tl (snd r))) (rows d')) = mset (rows d) \<and>
           sorted_wrt (row_le (columns d') (names_list cols) fs) (rows d') \<and>
           (\<forall>self''. try_order_by self' cols asc = (self'', Inr (True, None)) \<longrightarrow>
              (\<exists>d'' m. df_attr self'' = Some d'' \<and> m \<notin> set (columns d') \<and>
                     columns d'' = m # columns d' \<and>
                     length (rows d'') = length (rows d') \<and> d'' \<noteq> d'))"
proof -
  from order_by_frames[OF assms] obtain d' fs where
    d': "df_attr self' = Some d'"
    and fs: "flags_list asc (length (names_list cols)) = Inr fs"
    and fresh: "reset_index_name d \<notin> set (columns d)"
    and cols': "columns d' = reset_index_name d # columns d"
    and rest: "length (rows d') = length (rows d)"
      "map fst (rows d') = range_index (length (rows d))"
      "mset (map (\<lambda>r. (hd (snd r), tl (snd r))) (rows d')) = mset (rows d)"
      "sorted_wrt (row_le (columns d') (names_list cols) fs) (rows d')"
    by blast
  have again: "\<forall>self''. try_order_by self' cols asc = (self'', Inr (True, None)) \<longrightarrow>
              (\<exists>d'' m. df_attr self'' = Some d'' \<and> m \<notin> set (columns d') \<and>
                     columns d'' = m # columns d' \<and>
                     length (rows d'') = length (rows d') \<and> d'' \<noteq> d')"
    using order_by_again[OF _ d'] by blast
  from d' fs fresh cols' rest again show ?thesis by blast
qed

theorem order_by_sorted_and_counted_witness:
  "try_order_by \<lparr>file_path = None, df_attr = Some demo_text_frame\<rparr> (Name ''x'') (Flag True) =
     (\<lparr>file_path = None, df_attr = Some demo_sorted_once\<rparr>, Inr (True, None)) \<and>
   length (rows demo_sorted_once) = length (rows demo_text_frame) \<and>
   map fst (rows demo_sorted_once) = range_index (length (rows demo_text_frame)) \<and>
   mset (map (\<lambda>r. (hd (snd r), tl (snd r))) (rows demo_sorted_once)) = mset (rows demo_text_frame) \<and>
   sorted_wrt (row_le (columns demo_sorted_once) [''x''] [True]) (rows demo_sorted_once) \<and>
   (\<exists>n. n \<notin> set (columns demo_text_frame) \<and> columns demo_sorted_once = n # columns demo_text_frame) \<and>
   (\<exists>m. columns demo_sorted_twice = m # columns demo_sorted_once) \<and>
   demo_sorted_twice \<noteq> demo_sorted_once"
proof -
  let ?h = "\<lparr>file_path = None, df_attr = Some demo_text_frame\<rparr>"
  let ?h1 = "\<lparr>file_path = None, df_attr = Some demo_sorted_once\<rparr>"
  let ?h2 = "\<lparr>file_path = None, df_attr = Some demo_sorted_twice\<rparr>"
  have h1: "try_order_by ?h (Name ''x'') (Flag True) = (?h1, Inr (True, None))"
    by (rule demo_order_once)
  have h2: "df_attr ?h = Some demo_text_frame" by simp
  have h3: "try_order_by ?h1 (Name ''x'') (Flag True) = (?h2, Inr (True, None))"
    by (rule demo_order_twice)
  from order_by_sorted_and_counted[OF h1 h2] obtain d' fs n where r:
    "df_attr ?h1 = Some d'"
    "flags_list (Flag True) (length (names_list (Name ''x''))) = Inr fs"
    "n \<notin> set (columns demo_text_frame)" "columns d' = n # columns demo_text_frame"
    "length (rows d') = length (rows demo_text_frame)"
    "map fst (rows d') = range_index (length (rows demo_text_frame))"
    "mset (map (\<lambda>r. (hd (snd r), tl (snd r))) (rows d')) = mset (rows demo_text_frame)"
    "sorted_wrt (row_le (columns d') (names_list (Name ''x'')) fs) (rows d')"
    "\<forall>self''. try_order_by ?h1 (Name ''x'') (Flag True) = (self'', Inr (True, None)) \<longrightarrow>
        (\<exists>d'' m. df_attr self'' = Some d'' \<and> m \<notin> set (columns d') \<and>
                columns d'' = m # columns d' \<and>
                length (rows d'') = length (rows d') \<and> d'' \<noteq> d')"
    by blast
  from r(1) have d': "d' = demo_sorted_once" by simp
  from r(2) have fs: "fs = [True]" by (simp add: flags_list_def)
  from r(9) h3 obtain d'' m where "df_attr ?h2 = Some d''" "columns d'' = m # columns d'" "d'' \<noteq> d'"
    by blast
  then have "\<exists>m. columns demo_sorted_twice = m # columns demo_sorted_once"
    "demo_sorted_twice \<noteq> demo_sorted_once"
    using d' by auto
  with h1 r(3-8) show ?thesis unfolding d' fs by auto
qed

end
